theory Spec2Isabelle
  imports Complex_Main "HOL-Library.Log_Nat"
begin

section \<open>JavaScript values used by script.js\<close>

text \<open>
  A JavaScript number is an IEEE 754 double: a finite value, \<open>Infinity\<close>, \<open>-Infinity\<close> or
  \<open>NaN\<close>. A finite double is carried as the real it denotes. Every arithmetic operation
  computes the exact result and rounds it to the nearest double, a tie going to the even
  significand, a result of magnitude \<open>2^1024\<close> or more becoming infinite and a tiny one
  becoming subnormal or zero. The sign of zero is not modelled: the two divisions of the
  program divide by \<open>100\<close> and by a square, so a zero divisor is always \<open>+0\<close>.
\<close>

datatype number = Fin real | Infinity | NegInfinity | NaN

fun js_neg :: "number \<Rightarrow> number" where
  "js_neg (Fin a) = Fin (- a)"
| "js_neg Infinity = NegInfinity"
| "js_neg NegInfinity = Infinity"
| "js_neg NaN = NaN"

text \<open>The binary exponent of a positive real: \<open>2^e \<le> x < 2^(e+1)\<close>.\<close>

definition exponent :: "real \<Rightarrow> int" where
  "exponent x =
     (if 1 \<le> x then bitlen \<lfloor>x\<rfloor> - 1
      else (let k = bitlen \<lfloor>1 / x\<rfloor> - 1 in if x * 2 powi k = 1 then - k else - k - 1))"

definition round_half_even :: "real \<Rightarrow> int" where
  "round_half_even m =
     (let f = \<lfloor>m\<rfloor>; d = m - of_int f
      in if d < 1 / 2 then f else if 1 / 2 < d then f + 1 else if even f then f else f + 1)"

text \<open>
  Rounding a positive real to a double: 53 significant bits at the exponent of the value,
  or the fixed spacing \<open>2^-1074\<close> below the normal range.
\<close>

definition round_positive :: "real \<Rightarrow> number" where
  "round_positive x =
     (let e = exponent x;
          q = max e (- 1022) - 52;
          y = of_int (round_half_even (x / 2 powi q)) * 2 powi q
      in if 2 ^ 1024 \<le> y then Infinity else Fin y)"

definition to_double :: "real \<Rightarrow> number" where
  "to_double x =
     (if x = 0 then Fin 0
      else if 0 < x then round_positive x
      else js_neg (round_positive (- x)))"

fun js_add :: "number \<Rightarrow> number \<Rightarrow> number" where
  "js_add NaN y = NaN"
| "js_add x NaN = NaN"
| "js_add (Fin a) (Fin b) = to_double (a + b)"
| "js_add Infinity NegInfinity = NaN"
| "js_add NegInfinity Infinity = NaN"
| "js_add Infinity y = Infinity"
| "js_add NegInfinity y = NegInfinity"
| "js_add (Fin a) y = y"

definition js_sub :: "number \<Rightarrow> number \<Rightarrow> number" where
  "js_sub x y = js_add x (js_neg y)"

fun js_mul :: "number \<Rightarrow> number \<Rightarrow> number" where
  "js_mul NaN y = NaN"
| "js_mul x NaN = NaN"
| "js_mul (Fin a) (Fin b) = to_double (a * b)"
| "js_mul (Fin a) Infinity = (if a = 0 then NaN else if 0 < a then Infinity else NegInfinity)"
| "js_mul (Fin a) NegInfinity = (if a = 0 then NaN else if 0 < a then NegInfinity else Infinity)"
| "js_mul Infinity (Fin b) = (if b = 0 then NaN else if 0 < b then Infinity else NegInfinity)"
| "js_mul NegInfinity (Fin b) = (if b = 0 then NaN else if 0 < b then NegInfinity else Infinity)"
| "js_mul Infinity Infinity = Infinity"
| "js_mul NegInfinity NegInfinity = Infinity"
| "js_mul Infinity NegInfinity = NegInfinity"
| "js_mul NegInfinity Infinity = NegInfinity"

fun js_div :: "number \<Rightarrow> number \<Rightarrow> number" where
  "js_div NaN y = NaN"
| "js_div x NaN = NaN"
| "js_div (Fin a) (Fin b) =
     (if b = 0 then (if a = 0 then NaN else if 0 < a then Infinity else NegInfinity)
      else to_double (a / b))"
| "js_div (Fin a) y = Fin 0"
| "js_div Infinity (Fin b) = (if 0 \<le> b then Infinity else NegInfinity)"
| "js_div NegInfinity (Fin b) = (if 0 \<le> b then NegInfinity else Infinity)"
| "js_div x y = NaN"

fun js_lt :: "number \<Rightarrow> number \<Rightarrow> bool" where
  "js_lt NaN y = False"
| "js_lt x NaN = False"
| "js_lt (Fin a) (Fin b) = (a < b)"
| "js_lt x NegInfinity = False"
| "js_lt Infinity y = False"
| "js_lt NegInfinity y = True"
| "js_lt (Fin a) Infinity = True"

text \<open>
  \<open>Math.round\<close>: the nearest integer, a tie going towards \<open>+Infinity\<close>. It is defined on
  the exact value; a double with a fractional part is below \<open>2^52\<close> in magnitude, so the
  result is a double again.
\<close>

fun Math_round :: "number \<Rightarrow> number" where
  "Math_round (Fin x) = Fin (of_int \<lfloor>x + 1 / 2\<rfloor>)"
| "Math_round x = x"

text \<open>
  \<open>parseFloat\<close> reads the decimal text of a number and yields the nearest double. Its
  argument here is the real that the text denotes; on a value that is a double already
  (the text JavaScript prints for it reads back as the same double) nothing changes.
\<close>

fun parseFloat :: "number \<Rightarrow> number" where
  "parseFloat (Fin x) = to_double x"
| "parseFloat x = x"

text \<open>Decimal digits of a natural number, as \<open>toFixed\<close> writes them.\<close>

function digits :: "nat \<Rightarrow> string" where
  "digits n =
     (if n < 10 then [''0123456789'' ! n]
      else digits (n div 10) @ [''0123456789'' ! (n mod 10)])"
  by pat_completeness auto
termination
  by (relation "measure id") auto

declare digits.simps [simp del]

text \<open>
  The text of a number. \<open>Text\<close> carries the characters. From \<open>10^21\<close> on JavaScript prints
  the shortest digits that read back as the same double; those characters depend on the
  double, so that text is kept as \<open>NumberToString\<close> of the value.
\<close>

datatype js_text = Text string | NumberToString real

text \<open>
  \<open>x.toFixed(1)\<close>. A value that is not finite prints as its name. Otherwise the sign is
  split off, and below \<open>10^21\<close> the magnitude is printed through the integer \<open>n\<close> nearest
  to ten times it (the larger one on a tie), padded to two digits, with a point before the
  last digit.
\<close>

definition toFixed1 :: "number \<Rightarrow> js_text" where
  "toFixed1 v =
     (case v of
        NaN \<Rightarrow> Text ''NaN''
      | Infinity \<Rightarrow> Text ''Infinity''
      | NegInfinity \<Rightarrow> Text ''-Infinity''
      | Fin x0 \<Rightarrow>
          (let s = (if x0 < 0 then ''-'' else '''');
               x = (if x0 < 0 then - x0 else x0)
           in if 10 ^ 21 \<le> x then NumberToString x0
              else (let n = nat \<lfloor>10 * x + 1 / 2\<rfloor>;
                        m0 = digits n;
                        m1 = (if length m0 \<le> 1 then ''0'' @ m0 else m0);
                        k = length m1
                    in Text (s @ take (k - 1) m1 @ ''.'' @ drop (k - 1) m1))))"

text \<open>
  An exception raised by the program, by the name of its class. The only one script.js can
  raise on the data paths below is the built-in \<open>TypeError\<close> of a method call on a value
  that has no such method; the program defines no error class of its own and has no
  \<open>throw\<close> statement. The functions that the form handler calls return \<open>Inl\<close> of the
  exception or \<open>Inr\<close> of their result.
\<close>

datatype js_error = JSError string

section \<open>Configuration data\<close>

text \<open>\<open>HEALTH_DATA.diets\<close>, keyed by the preference.\<close>

definition HEALTH_DATA_diets :: "(string \<times> string list) list" where
  "HEALTH_DATA_diets =
     [(''non-veg'', [''Grilled Salmon with Asparagus'', ''Chicken Quinoa Bowl'', ''Greek Yogurt & Berries'']),
      (''veg'', [''Lentil Curry with Brown Rice'', ''Roasted Chickpea Salad'', ''Cottage Cheese Stir-fry'']),
      (''vegan'', [''Tofu Scramble'', ''Sweet Potato & Black Bean Tacos'', ''Tempeh Buddha Bowl''])]"

section \<open>Core logic\<close>

text \<open>
  The form data handed to \<open>calculateHealthMetrics\<close>. The fields \<open>age\<close>, \<open>height\<close> and
  \<open>weight\<close> hold numbers (what \<open>parseInt\<close> made of the form's text); \<open>activity\<close> holds
  the decimal value written in the text of the field, which \<open>parseFloat\<close> turns into a
  double.
\<close>

record health_input =
  age :: number
  gender :: string
  height :: number
  weight :: number
  activity :: number
  goal :: string
  preference :: string

record health_result =
  bmi :: js_text
  calories :: number
  category :: string

definition getBMICategory :: "number \<Rightarrow> string" where
  "getBMICategory b =
     (if js_lt b (Fin 18.5) then ''underweight''
      else if js_lt b (Fin 25) then ''normal''
      else if js_lt b (Fin 30) then ''overweight''
      else ''obese'')"

definition calculateHealthMetrics :: "health_input \<Rightarrow> js_error + health_result" where
  "calculateHealthMetrics data =
     (let heightM = js_div (height data) (Fin 100);
          bmiV = js_div (weight data) (js_mul heightM heightM);
          bmr0 = js_sub (js_add (js_mul (Fin 10) (weight data)) (js_mul (Fin 6.25) (height data)))
                        (js_mul (Fin 5) (age data));
          bmr1 = (if gender data = ''male'' then js_add bmr0 (Fin 5) else js_sub bmr0 (Fin 161));
          cal0 = js_mul bmr1 (parseFloat (activity data));
          cal1 = (if goal data = ''lose'' then js_sub cal0 (Fin 500) else cal0);
          cal2 = (if goal data = ''gain'' then js_add cal1 (Fin 500) else cal1)
      in Inr \<lparr>bmi = toFixed1 bmiV, calories = Math_round cal2, category = getBMICategory bmiV\<rparr>)"

section \<open>Diet plan\<close>

text \<open>The three template literals of \<open>renderDietPlan\<close>, with their line breaks and
  indentation. The light-bulb sign of the heading is written as its four UTF-8 bytes, and
  \<open>target\<close> is the value of the expression spliced in after \<open>Target change:\<close>.\<close>

definition diet_intro :: "string \<Rightarrow> string \<Rightarrow> string" where
  \<open>diet_intro pref g =
     ''<p style="margin-bottom:15px; color:var(--text-muted)">Based on your <strong>'' @ pref @
     ''</strong> preference and <strong>'' @ g @ ''</strong> goal:</p>''\<close>

definition diet_item :: "nat \<Rightarrow> string \<Rightarrow> string" where
  \<open>diet_item idx food =
     ''\<newline>            <div class="diet-item">\<newline>                <span class="badge" style="margin-right:10px">Meal 0'' @
     digits (idx + 1) @
     ''</span>\<newline>                <strong>'' @ food @
     ''</strong>\<newline>            </div>\<newline>        ''\<close>

definition diet_roadmap :: "string \<Rightarrow> string" where
  \<open>diet_roadmap target =
     ''\<newline>        <div class="diet-item" style="border:none; margin-top:10px">\<newline>            <h4>'' @
     [CHR 0xF0, CHR 0x9F, CHR 0x92, CHR 0xA1] @
     '' Weekly Roadmap</h4>\<newline>            <p style="font-size:0.9rem; color:var(--text-muted)">\<newline>                Target change: '' @
     target @
     '' / week. \<newline>                Keep hydration above 3L/day.\<newline>            </p>\<newline>        </div>\<newline>    ''\<close>

text \<open>\<open>items.forEach((food, idx) => { html += ... })\<close>: the entries in order, each with
  its index.\<close>

fun forEach_item :: "nat \<Rightarrow> string list \<Rightarrow> string \<Rightarrow> string" where
  "forEach_item idx [] html = html"
| "forEach_item idx (food # rest) html = forEach_item (idx + 1) rest (html @ diet_item idx food)"

text \<open>
  \<open>renderDietPlan\<close> returns the markup it assigns to the \<open>dietSummary\<close> element. A key
  outside the table reads as \<open>undefined\<close>, or as a member inherited from
  \<open>Object.prototype\<close>; none of these has a \<open>forEach\<close> method, so \<open>items.forEach(...)\<close>
  raises a \<open>TypeError\<close> before anything is assigned.
\<close>

definition renderDietPlan :: "string \<Rightarrow> string \<Rightarrow> js_error + string" where
  "renderDietPlan pref g =
     (case map_of HEALTH_DATA_diets pref of
        None \<Rightarrow> Inl (JSError ''TypeError'')
      | Some items \<Rightarrow>
          (let html0 = diet_intro pref g;
               html1 = forEach_item 0 items html0;
               html2 = html1 @ diet_roadmap (if g = ''maintain'' then ''0kg'' else ''0.5kg'')
           in Inr html2))"

section \<open>Charts\<close>

datatype js_value = JText js_text | JNum number

record chart =
  chart_type :: string
  labels :: "string list"
  dataset :: "js_value list"

record charts =
  bmiChart :: chart
  weightChart :: chart

text \<open>\<open>for(let i=0; i<4; i++) { currentWeight += change; weightData.push(currentWeight.toFixed(1)); }\<close>\<close>

function weight_loop :: "nat \<Rightarrow> number \<Rightarrow> number \<Rightarrow> js_text list \<Rightarrow> js_text list" where
  "weight_loop i currentWeight change weightData =
     (if i < 4
      then weight_loop (i + 1) (js_add currentWeight change) change
             (weightData @ [toFixed1 (js_add currentWeight change)])
      else weightData)"
  by pat_completeness auto
termination
  by (relation "measure (\<lambda>(i, cw, ch, wd). 4 - i)") auto

declare weight_loop.simps [simp del]

text \<open>
  \<open>renderCharts\<close> replaces the two charts of the page; the model returns the new ones with
  their type, labels and data (colours and layout options are left out). The \<open>calories\<close>
  argument is not used by the function.
\<close>

definition renderCharts :: "js_text \<Rightarrow> number \<Rightarrow> number \<Rightarrow> string \<Rightarrow> js_error + charts" where
  "renderCharts bmiT cals w g =
     (let currentWeight = parseFloat w;
          change = (if g = ''lose'' then Fin (- 0.5) else (if g = ''gain'' then Fin 0.5 else Fin 0));
          weightData = weight_loop 0 currentWeight change []
      in Inr \<lparr>bmiChart = \<lparr>chart_type = ''doughnut'', labels = [''Your BMI'', ''Optimal''],
                             dataset = [JText bmiT, JNum (Fin 25)]\<rparr>,
              weightChart = \<lparr>chart_type = ''line'',
                             labels = [''Week 1'', ''Week 2'', ''Week 3'', ''Week 4''],
                             dataset = map JText weightData\<rparr>\<rparr>)"

section \<open>Notions of the specification\<close>

text \<open>The data of a form whose numeric fields are all finite. The preference is not read
  by \<open>calculateHealthMetrics\<close>; it is fixed here.\<close>

definition form_data :: "real \<Rightarrow> string \<Rightarrow> real \<Rightarrow> real \<Rightarrow> real \<Rightarrow> string \<Rightarrow> health_input" where
  "form_data a g h w f gl =
     \<lparr>age = Fin a, gender = g, height = Fin h, weight = Fin w, activity = Fin f, goal = gl,
      preference = ''non-veg''\<rparr>"

text \<open>
  The constraints the specification puts on an input: height, weight and activity factor
  strictly positive, age a positive integer below 150.
\<close>

fun positive :: "number \<Rightarrow> bool" where
  "positive (Fin x) = (0 < x)"
| "positive x = False"

fun valid_age :: "number \<Rightarrow> bool" where
  "valid_age (Fin a) = (0 < a \<and> a < 150 \<and> of_int \<lfloor>a\<rfloor> = a)"
| "valid_age x = False"

definition spec_valid_input :: "health_input \<Rightarrow> bool" where
  "spec_valid_input d =
     (valid_age (age d) \<and> positive (height d) \<and> positive (weight d) \<and> positive (activity d))"

text \<open>
  The formulas of the specification, each operation being the one of double arithmetic:
  BMI = weightKg / (heightCm/100)^2; BMR = 10 weightKg + 6.25 heightCm - 5 age, then +5 for
  male and -161 otherwise; TDEE = BMR times the activity factor; the target is the TDEE,
  then -500 for lose and +500 for gain.
\<close>

definition spec_BMI :: "number \<Rightarrow> number \<Rightarrow> number" where
  "spec_BMI weightKg heightCm =
     (let m = js_div heightCm (Fin 100) in js_div weightKg (js_mul m m))"

definition spec_BMR :: "number \<Rightarrow> number \<Rightarrow> number \<Rightarrow> string \<Rightarrow> number" where
  "spec_BMR weightKg heightCm ageY g =
     (let b = js_sub (js_add (js_mul (Fin 10) weightKg) (js_mul (Fin 6.25) heightCm))
                     (js_mul (Fin 5) ageY)
      in if g = ''male'' then js_add b (Fin 5) else js_sub b (Fin 161))"

definition spec_TDEE :: "number \<Rightarrow> number \<Rightarrow> number" where
  "spec_TDEE bmr activityFactor = js_mul bmr activityFactor"

definition spec_target :: "number \<Rightarrow> string \<Rightarrow> number" where
  "spec_target tdee gl =
     (if gl = ''lose'' then js_sub tdee (Fin 500)
      else if gl = ''gain'' then js_add tdee (Fin 500)
      else tdee)"

definition spec_input_TDEE :: "health_input \<Rightarrow> number" where
  "spec_input_TDEE d =
     spec_TDEE (spec_BMR (weight d) (height d) (age d) (gender d)) (parseFloat (activity d))"

text \<open>The BMI formula over the reals, without any rounding.\<close>

definition exact_BMI :: "real \<Rightarrow> real \<Rightarrow> real" where
  "exact_BMI weightKg heightCm = weightKg / (heightCm / 100)\<^sup>2"

text \<open>The per-period delta of the projection, and the weights it accumulates: each point
  is the one before plus the delta, in double arithmetic.\<close>

definition spec_delta :: "string \<Rightarrow> real" where
  "spec_delta gl = (if gl = ''lose'' then - 0.5 else if gl = ''gain'' then 0.5 else 0)"

fun spec_accumulate :: "number \<Rightarrow> number \<Rightarrow> nat \<Rightarrow> number list" where
  "spec_accumulate w dl 0 = []"
| "spec_accumulate w dl (Suc n) = js_add w dl # spec_accumulate (js_add w dl) dl n"

text \<open>The reals that are doubles: an integer significand below \<open>2^53\<close> in magnitude at a
  spacing of at least \<open>2^-1074\<close>, the value being below \<open>2^1024\<close> in magnitude.\<close>

definition representable :: "real \<Rightarrow> bool" where
  "representable x \<longleftrightarrow>
     (\<exists>m q. x = of_int m * 2 powi q \<and> \<bar>m\<bar> < 2 ^ 53 \<and> - 1074 \<le> q) \<and> \<bar>x\<bar> < 2 ^ 1024"

section \<open>Facts about rounding\<close>

lemma pow2_pos: "0 < (2::real) powi k"
  by (simp add: power_int_def)

lemma pow2_mono: "a \<le> b \<Longrightarrow> (2::real) powi a \<le> 2 powi b"
  by (rule power_int_increasing) simp_all

lemma pow2_strict_mono: "a < b \<Longrightarrow> (2::real) powi a < 2 powi b"
  by (rule power_int_strict_increasing) simp_all

lemma floor_pow_bounds:
  fixes y :: real
  assumes "1 \<le> y"
  shows "2 powi (bitlen \<lfloor>y\<rfloor> - 1) \<le> y \<and> y < 2 powi (bitlen \<lfloor>y\<rfloor>)"
proof -
  let ?a = "\<lfloor>y\<rfloor>"
  have a: "0 < ?a" using assms by linarith
  from bitlen_bounds [OF a] have b1: "2 ^ nat (bitlen ?a - 1) \<le> ?a" and b2: "?a < 2 ^ nat (bitlen ?a)"
    by simp_all
  have ge1: "1 \<le> bitlen ?a" using a by (simp add: bitlen_alt_def)
  have "(2::real) powi (bitlen ?a - 1) = 2 ^ nat (bitlen ?a - 1)"
    using ge1 by (simp add: power_int_def)
  also have "\<dots> = of_int (2 ^ nat (bitlen ?a - 1))" by simp
  also have "\<dots> \<le> of_int ?a" using b1 by (simp only: of_int_le_iff)
  also have "\<dots> \<le> y" by simp
  finally have l: "2 powi (bitlen ?a - 1) \<le> y" .
  have "?a + 1 \<le> 2 ^ nat (bitlen ?a)" using b2 by simp
  then have "of_int (?a + 1) \<le> (of_int (2 ^ nat (bitlen ?a)) :: real)" by (simp only: of_int_le_iff)
  moreover have "y < of_int (?a + 1)" by linarith
  ultimately have "y < (of_int (2 ^ nat (bitlen ?a)) :: real)" by linarith
  also have "\<dots> = 2 powi (bitlen ?a)" using ge1 by (simp add: power_int_def)
  finally show ?thesis using l by simp
qed

lemma exponent_bounds:
  assumes "0 < x"
  shows "2 powi (exponent x) \<le> x \<and> x < 2 powi (exponent x + 1)"
proof (cases "1 \<le> x")
  case True
  then show ?thesis
    using floor_pow_bounds [of x] by (simp add: exponent_def)
next
  case False
  define k where "k = bitlen \<lfloor>1 / x\<rfloor> - 1"
  have y: "1 \<le> 1 / x" using assms False by simp
  from floor_pow_bounds [OF y] have b: "2 powi k \<le> 1 / x" "1 / x < 2 powi (k + 1)"
    by (simp_all add: k_def)
  have u: "x * 2 powi k \<le> 1"
    using b(1) assms by (simp add: field_simps)
  have l: "1 < x * 2 powi (k + 1)"
    using b(2) assms by (simp add: field_simps)
  have inv: "2 powi (- k) * 2 powi k = (1::real)"
    by (simp add: power_int_minus)
  show ?thesis
  proof (cases "x * 2 powi k = 1")
    case True
    have ex: "exponent x = - k"
      using True False by (simp add: exponent_def Let_def k_def)
    have xe: "x = 2 powi (- k)"
      using True by (simp add: power_int_minus field_simps)
    have "2 powi (- k) \<le> x" using xe by simp
    moreover have "x < 2 powi (- k + 1)"
      unfolding xe by (rule pow2_strict_mono) simp
    ultimately show ?thesis unfolding ex by simp
  next
    case F2: False
    have ex: "exponent x = - k - 1"
      using F2 False by (simp add: exponent_def Let_def k_def)
    from F2 have lt: "x * 2 powi k < 1" using u by simp
    have "x < 2 powi (- k)"
      using lt pow2_pos [of k] by (simp add: power_int_minus field_simps)
    moreover have "2 powi (- k - 1) \<le> x"
    proof -
      have "2 powi (- k - 1) * 2 powi (k + 1) = (1::real)"
        by (simp flip: power_int_add)
      then have "2 powi (- k - 1) * 2 powi (k + 1) < x * 2 powi (k + 1)" using l by simp
      then show ?thesis using pow2_pos [of "k + 1"] by simp
    qed
    ultimately show ?thesis unfolding ex by simp
  qed
qed

lemma exponent_unique:
  assumes "0 < x" "2 powi e \<le> x" "x < 2 powi (e + 1)"
  shows "exponent x = e"
proof -
  from exponent_bounds [OF assms(1)]
  have b: "2 powi (exponent x) \<le> x" "x < 2 powi (exponent x + 1)" by simp_all
  have "\<not> exponent x < e"
  proof
    assume "exponent x < e"
    then have "(2::real) powi (exponent x + 1) \<le> 2 powi e" by (intro pow2_mono) simp
    with b(2) assms(2) show False by linarith
  qed
  moreover have "\<not> e < exponent x"
  proof
    assume "e < exponent x"
    then have "(2::real) powi (e + 1) \<le> 2 powi (exponent x)" by (intro pow2_mono) simp
    with b(1) assms(3) show False by linarith
  qed
  ultimately show ?thesis by simp
qed

lemma round_half_even_int: "round_half_even (of_int n) = n"
  by (simp add: round_half_even_def)

lemma int_less_pow2_real:
  fixes m :: int
  assumes "m < 2 ^ 53"
  shows "real_of_int m < 2 ^ 53"
proof -
  have "real_of_int m < real_of_int (2 ^ 53)" using assms by (simp only: of_int_less_iff)
  then show ?thesis by simp
qed

lemma round_positive_exact:
  assumes x: "x = of_int m * 2 powi q0" and m: "0 < m" "m < 2 ^ 53" and q0: "- 1074 \<le> q0"
    and big: "x < 2 ^ 1024"
  shows "round_positive x = Fin x"
proof -
  have mpos: "0 < real_of_int m" using m(1) by simp
  have xpos: "0 < x" unfolding x using mpos pow2_pos [of q0] by (rule mult_pos_pos)
  define e where "e = exponent x"
  define q where "q = max e (- 1022) - 52"
  from exponent_bounds [OF xpos] have lo: "2 powi e \<le> x" by (simp add: e_def)
  have qq: "q \<le> q0"
  proof (cases "e \<le> - 1022")
    case True
    then show ?thesis using q0 by (simp add: q_def)
  next
    case False
    have "x < 2 ^ 53 * 2 powi q0"
      unfolding x using int_less_pow2_real [OF m(2)] pow2_pos [of q0]
      by (rule mult_strict_right_mono)
    also have "\<dots> = 2 powi (53 + q0)"
      by (simp add: power_int_add)
    finally have "2 powi e < (2::real) powi (53 + q0)" using lo by linarith
    then have "e < 53 + q0"
      using pow2_mono [of "53 + q0" e] by (cases "e < 53 + q0") simp_all
    then show ?thesis using False by (simp add: q_def)
  qed
  have "x / 2 powi q = of_int m * (2 powi q0 / 2 powi q)"
    unfolding x by simp
  also have "2 powi q0 / 2 powi q = (2::real) powi (q0 - q)"
    by (simp add: power_int_diff)
  also have "\<dots> = 2 ^ nat (q0 - q)"
    using qq by (simp add: power_int_def)
  finally have "x / 2 powi q = of_int (m * 2 ^ nat (q0 - q))"
    by simp
  then have "of_int (round_half_even (x / 2 powi q)) * 2 powi q = x / 2 powi q * 2 powi q"
    by (simp only: round_half_even_int)
  also have "\<dots> = x" by simp
  finally have y: "of_int (round_half_even (x / 2 powi q)) * 2 powi q = x" .
  have nb: "\<not> (2::real) ^ 1024 \<le> x"
    using big by (simp only: not_le)
  have "round_positive x = (if 2 ^ 1024 \<le> x then Infinity else Fin x)"
    unfolding round_positive_def Let_def e_def [symmetric] q_def [symmetric] y
    by (rule refl)
  then show ?thesis
    using nb by (simp only: if_False)
qed

lemma to_double_exact:
  assumes "representable x"
  shows "to_double x = Fin x"
proof -
  from assms obtain m q where x: "x = of_int m * 2 powi q" and m: "\<bar>m\<bar> < 2 ^ 53"
    and q: "- 1074 \<le> q" and big: "\<bar>x\<bar> < 2 ^ 1024"
    unfolding representable_def by blast
  from big have b1: "x < 2 ^ 1024" and b2: "- x < 2 ^ 1024"
    by (simp_all only: abs_less_iff)
  from m have m1: "m < 2 ^ 53" and m2: "- m < 2 ^ 53"
    by (simp_all only: abs_less_iff)
  consider "x = 0" | "0 < x" | "x < 0" by linarith
  then show ?thesis
  proof cases
    case 1
    then show ?thesis by (simp add: to_double_def)
  next
    case 2
    then have mp: "0 < m" using x pow2_pos [of q] by (simp add: zero_less_mult_iff)
    have "round_positive x = Fin x"
      using x mp m1 q b1 by (rule round_positive_exact)
    then show ?thesis using 2 by (simp add: to_double_def)
  next
    case 3
    then have mp: "0 < - m" using x pow2_pos [of q] by (simp add: mult_less_0_iff)
    have nx: "- x = of_int (- m) * 2 powi q" unfolding x by simp
    have "round_positive (- x) = Fin (- x)"
      using nx mp m2 q b2 by (rule round_positive_exact)
    then show ?thesis using 3 by (simp add: to_double_def)
  qed
qed

lemma abs_int_bound:
  assumes "\<bar>n\<bar> < (2::int) ^ 53"
  shows "\<bar>real_of_int n\<bar> < 2 ^ 1024"
proof -
  have "\<bar>real_of_int n\<bar> = real_of_int \<bar>n\<bar>" by simp
  also have "\<dots> < real_of_int (2 ^ 53)" using assms by (simp only: of_int_less_iff)
  also have "\<dots> = (2::real) ^ 53" by simp
  also have "\<dots> \<le> (2::real) ^ 1024" by (intro power_increasing) simp_all
  finally show ?thesis .
qed

lemma representable_int: "\<bar>n\<bar> < 2 ^ 53 \<Longrightarrow> representable (of_int n)"
  unfolding representable_def
  using abs_int_bound [of n] by (intro conjI exI [of _ n] exI [of _ 0]) simp_all


lemma round_half_even_bounds: "\<lfloor>m\<rfloor> \<le> round_half_even m \<and> round_half_even m \<le> \<lfloor>m\<rfloor> + 1"
  by (simp add: round_half_even_def Let_def)

lemma representable_neg: "representable (- x) = representable x"
proof -
  have "representable y \<Longrightarrow> representable (- y)" for y
  proof -
    assume "representable y"
    then obtain m q where y: "y = of_int m * 2 powi q" and m: "\<bar>m\<bar> < 2 ^ 53"
      and q: "- 1074 \<le> q" and big: "\<bar>y\<bar> < 2 ^ 1024"
      unfolding representable_def by blast
    have "- y = of_int (- m) * 2 powi q" unfolding y by simp
    moreover have "\<bar>- m\<bar> < 2 ^ 53" using m by (simp only: abs_minus_cancel)
    moreover have "\<bar>- y\<bar> < 2 ^ 1024" using big by (simp only: abs_minus_cancel)
    ultimately show "representable (- y)"
      unfolding representable_def using q by blast
  qed
  from this [of x] this [of "- x"] show ?thesis by auto
qed

lemma representable_zero: "representable 0"
  using representable_int [of 0] by simp

lemma round_positive_representable:
  assumes xpos: "0 < x" and r: "round_positive x = Fin y"
  shows "representable y"
proof -
  define e where "e = exponent x"
  define q where "q = max e (- 1022) - 52"
  define n where "n = round_half_even (x / 2 powi q)"
  have rp: "round_positive x =
      (if (2::real) ^ 1024 \<le> of_int n * 2 powi q then Infinity else Fin (of_int n * 2 powi q))"
    unfolding round_positive_def Let_def e_def [symmetric] q_def [symmetric] n_def [symmetric]
    by (rule refl)
  have nb: "\<not> (2::real) ^ 1024 \<le> of_int n * 2 powi q"
  proof
    assume "(2::real) ^ 1024 \<le> of_int n * 2 powi q"
    then have "round_positive x = Infinity" unfolding rp by (simp only: if_True)
    with r show False by simp
  qed
  then have y: "y = of_int n * 2 powi q"
    using r unfolding rp by (simp only: if_False number.inject)
  have ylt: "y < 2 ^ 1024" using nb unfolding y by (simp only: not_le)
  have qlo: "- 1074 \<le> q" by (simp add: q_def)
  have qe: "e + 1 \<le> q + 53" by (simp add: q_def)
  from exponent_bounds [OF xpos] have "x < 2 powi (e + 1)" by (simp add: e_def)
  also have "\<dots> \<le> 2 powi (q + 53)" using qe by (rule pow2_mono)
  also have "\<dots> = 2 powi q * 2 ^ 53" by (simp add: power_int_add)
  finally have "x / 2 powi q < 2 ^ 53"
    using pow2_pos [of q] by (simp add: field_simps)
  then have fl: "\<lfloor>x / 2 powi q\<rfloor> < 2 ^ 53"
    by (simp add: floor_less_iff)
  have "0 \<le> x / 2 powi q" using xpos pow2_pos [of q] by simp
  then have fl0: "0 \<le> \<lfloor>x / 2 powi q\<rfloor>" by simp
  from round_half_even_bounds [of "x / 2 powi q"]
  have b1: "\<lfloor>x / 2 powi q\<rfloor> \<le> n" and b2: "n \<le> \<lfloor>x / 2 powi q\<rfloor> + 1"
    unfolding n_def by blast+
  have n0: "0 \<le> n" using fl0 b1 by linarith
  have n1: "n \<le> 2 ^ 53" using fl b2 by linarith
  have y0: "0 \<le> y" unfolding y using n0 pow2_pos [of q] by simp
  then have ay: "\<bar>y\<bar> < 2 ^ 1024" using ylt by (simp only: abs_of_nonneg)
  show ?thesis
  proof (cases "n = 2 ^ 53")
    case True
    have "y = of_int (2 ^ 52) * 2 powi (q + 1)"
      unfolding y True by (simp add: power_int_add)
    moreover have "\<bar>(2::int) ^ 52\<bar> < 2 ^ 53" by simp
    moreover have "- 1074 \<le> q + 1" using qlo by simp
    ultimately show ?thesis unfolding representable_def using ay by blast
  next
    case False
    then have "\<bar>n\<bar> < 2 ^ 53" using n0 n1 by simp
    then show ?thesis unfolding representable_def using y qlo ay by blast
  qed
qed

lemma to_double_representable:
  assumes "to_double x = Fin y"
  shows "representable y"
proof -
  consider "x = 0" | "0 < x" | "x < 0" by linarith
  then show ?thesis
  proof cases
    case 1
    then have "y = 0" using assms by (simp add: to_double_def)
    then show ?thesis by (simp add: representable_zero)
  next
    case 2
    then have "round_positive x = Fin y" using assms by (simp add: to_double_def)
    with 2 show ?thesis by (rule round_positive_representable)
  next
    case 3
    then have "js_neg (round_positive (- x)) = Fin y" using assms by (simp add: to_double_def)
    then have "round_positive (- x) = Fin (- y)"
      by (cases "round_positive (- x)") simp_all
    moreover have "0 < - x" using 3 by simp
    ultimately have "representable (- y)" by (rule round_positive_representable [rotated])
    then show ?thesis by (simp only: representable_neg)
  qed
qed

lemma to_double_idem: "to_double x = Fin y \<Longrightarrow> to_double y = Fin y"
  by (rule to_double_exact) (rule to_double_representable)

lemma js_add_zero_double: "to_double x = Fin y \<Longrightarrow> js_add (Fin y) (Fin 0) = Fin y"
  using to_double_idem [of x y] by simp

lemma parseFloat_add_zero: "js_add (parseFloat w) (Fin 0) = parseFloat w"
proof (cases w)
  case (Fin x)
  show ?thesis
  proof (cases "to_double x")
    case (Fin y)
    then show ?thesis using \<open>w = Fin x\<close> js_add_zero_double [of x y] by simp
  qed (simp_all add: \<open>w = Fin x\<close>)
qed simp_all

section \<open>Auxiliary facts\<close>

lemmas dbl =
  to_double_def round_positive_def round_half_even_def exponent_def Let_def compute_bitlen

text \<open>
  Instances of the rounding: a tie goes to the even significand (above \<open>2^53\<close> the
  doubles are the even integers, so \<open>2^53 + 1\<close> goes down and \<open>2^53 + 3\<close> goes up,
  and \<open>2^53 - 0.5\<close> is \<open>2^53\<close> again); \<open>2^1024\<close> overflows; half the smallest
  subnormal \<open>2^-1074\<close> becomes zero.
\<close>

lemma to_double_tie_down: "to_double 9007199254740993 = Fin 9007199254740992"
  by (simp add: dbl)

lemma to_double_tie_up: "to_double 9007199254740995 = Fin 9007199254740996"
  by (simp add: dbl)

lemma js_add_absorbed: "js_add (Fin 9007199254740992) (Fin (- 0.5)) = Fin 9007199254740992"
  by (simp add: dbl)

lemma to_double_overflow: "to_double (2 ^ 1024) = Infinity"
  by (simp add: dbl)

lemma to_double_underflow: "to_double (1 / 2 ^ 1075) = Fin 0"
  by (simp add: dbl)

lemma metrics_spec:
  "calculateHealthMetrics d =
     Inr \<lparr>bmi = toFixed1 (spec_BMI (weight d) (height d)),
          calories = Math_round (spec_target (spec_input_TDEE d) (goal d)),
          category = getBMICategory (spec_BMI (weight d) (height d))\<rparr>"
  by (simp add: calculateHealthMetrics_def spec_BMI_def spec_BMR_def spec_TDEE_def
      spec_target_def spec_input_TDEE_def Let_def)

lemma metrics_returns: "\<exists>r. calculateHealthMetrics d = Inr r"
  by (simp add: calculateHealthMetrics_def Let_def)

lemma weight_loop_four:
  "weight_loop 0 cw ch [] =
     [toFixed1 (js_add cw ch),
      toFixed1 (js_add (js_add cw ch) ch),
      toFixed1 (js_add (js_add (js_add cw ch) ch) ch),
      toFixed1 (js_add (js_add (js_add (js_add cw ch) ch) ch) ch)]"
  by (simp add: weight_loop.simps)

lemma accumulate_four:
  "spec_accumulate w dl 4 =
     [js_add w dl, js_add (js_add w dl) dl, js_add (js_add (js_add w dl) dl) dl,
      js_add (js_add (js_add (js_add w dl) dl) dl) dl]"
  by (simp add: eval_nat_numeral)

lemma weight_loop_accumulate:
  "weight_loop 0 cw ch [] = map toFixed1 (spec_accumulate cw ch 4)"
  by (simp add: weight_loop_four accumulate_four)

lemma change_delta:
  "(if g = ''lose'' then Fin (- 0.5) else if g = ''gain'' then Fin 0.5 else Fin 0) =
     Fin (spec_delta g)"
  by (simp add: spec_delta_def)

lemma renderCharts_weightChart:
  "\<exists>ch. renderCharts b c w g = Inr ch \<and>
        labels (weightChart ch) = [''Week 1'', ''Week 2'', ''Week 3'', ''Week 4''] \<and>
        dataset (weightChart ch) =
          map JText (map toFixed1 (spec_accumulate (parseFloat w) (Fin (spec_delta g)) 4))"
  unfolding renderCharts_def Let_def change_delta weight_loop_accumulate by simp





lemma diets_lookup:
  "map_of HEALTH_DATA_diets ''non-veg'' =
     Some [''Grilled Salmon with Asparagus'', ''Chicken Quinoa Bowl'', ''Greek Yogurt & Berries'']"
  "map_of HEALTH_DATA_diets ''veg'' =
     Some [''Lentil Curry with Brown Rice'', ''Roasted Chickpea Salad'', ''Cottage Cheese Stir-fry'']"
  "map_of HEALTH_DATA_diets ''vegan'' =
     Some [''Tofu Scramble'', ''Sweet Potato & Black Bean Tacos'', ''Tempeh Buddha Bowl'']"
  by (simp_all add: HEALTH_DATA_diets_def)

lemma diets_unknown:
  "pref \<noteq> ''non-veg'' \<Longrightarrow> pref \<noteq> ''veg'' \<Longrightarrow> pref \<noteq> ''vegan'' \<Longrightarrow>
   map_of HEALTH_DATA_diets pref = None"
  by (simp add: HEALTH_DATA_diets_def)

lemma renderDietPlan_three:
  "map_of HEALTH_DATA_diets pref = Some [m1, m2, m3] \<Longrightarrow>
   renderDietPlan pref g =
     Inr (diet_intro pref g @ diet_item 0 m1 @ diet_item 1 m2 @ diet_item 2 m3 @
          diet_roadmap (if g = ''maintain'' then ''0kg'' else ''0.5kg''))"
  by (simp add: renderDietPlan_def Let_def numeral_2_eq_2)

lemma metrics_bmi:
  "\<exists>r. calculateHealthMetrics d = Inr r \<and>
       bmi r = toFixed1 (js_div (weight d) (js_mul (js_div (height d) (Fin 100))
                                                   (js_div (height d) (Fin 100)))) \<and>
       category r = getBMICategory (js_div (weight d) (js_mul (js_div (height d) (Fin 100))
                                                              (js_div (height d) (Fin 100))))"
  by (simp add: calculateHealthMetrics_def Let_def)

lemma zero_height_bmi:
  "js_div (Fin w) (js_mul (js_div (Fin 0) (Fin 100)) (js_div (Fin 0) (Fin 100))) =
     (if w = 0 then NaN else if 0 < w then Infinity else NegInfinity)"
  by (simp add: to_double_def)

lemma metrics_gender:
  "gender d \<noteq> ''male'' \<Longrightarrow>
   calculateHealthMetrics d = calculateHealthMetrics (d\<lparr>gender := ''female''\<rparr>)"
  by (simp add: calculateHealthMetrics_def)

lemma metrics_goal:
  "goal d \<noteq> ''lose'' \<Longrightarrow> goal d \<noteq> ''gain'' \<Longrightarrow>
   calculateHealthMetrics d = calculateHealthMetrics (d\<lparr>goal := ''maintain''\<rparr>)"
  by (simp add: calculateHealthMetrics_def)

lemma renderCharts_other_goal:
  assumes "gl \<noteq> ''lose''" "gl \<noteq> ''gain''"
  shows "\<exists>ch. renderCharts b c wt gl = Inr ch \<and>
              dataset (weightChart ch) = replicate 4 (JText (toFixed1 (parseFloat wt)))"
proof -
  have "spec_delta gl = 0" using assms by (simp add: spec_delta_def)
  then show ?thesis
    using renderCharts_weightChart [of b c wt gl]
    by (auto simp add: parseFloat_add_zero eval_nat_numeral)
qed

lemma tdee_example_maintain:
  "spec_input_TDEE (form_data 30 ''male'' 180 80 1.55 ''maintain'') =
     Fin 2759"
  by (simp add: spec_input_TDEE_def spec_TDEE_def spec_BMR_def form_data_def js_sub_def dbl)

lemma metrics_example_maintain:
  "calculateHealthMetrics (form_data 30 ''male'' 180 80 1.55 ''maintain'') =
     Inr \<lparr>bmi = Text ''24.7'', calories = Fin 2759, category = ''normal''\<rparr>"
proof -
  have b: "spec_BMI (Fin 80) (Fin 180) = Fin (6949999424954469 / 281474976710656)"
    by (simp add: spec_BMI_def dbl)
  have c: "Math_round (spec_target (Fin 2759) ''maintain'') = Fin 2759"
    by (simp add: spec_target_def js_sub_def dbl)
  have x: "toFixed1 (Fin (6949999424954469 / 281474976710656)) = Text ''24.7''"
    by (simp add: toFixed1_def digits.simps Let_def)
  have k: "getBMICategory (Fin (6949999424954469 / 281474976710656)) = ''normal''"
    by (simp add: getBMICategory_def)
  have f: "weight (form_data 30 ''male'' 180 80 1.55 ''maintain'') = Fin 80"
    "height (form_data 30 ''male'' 180 80 1.55 ''maintain'') = Fin 180"
    "goal (form_data 30 ''male'' 180 80 1.55 ''maintain'') = ''maintain''"
    by (simp_all add: form_data_def)
  show ?thesis
    unfolding metrics_spec f b tdee_example_maintain c x k by (rule refl)
qed

lemma tdee_example_lose:
  "spec_input_TDEE (form_data 30 ''male'' 180 80 1.55 ''lose'') =
     Fin 2759"
  by (simp add: spec_input_TDEE_def spec_TDEE_def spec_BMR_def form_data_def js_sub_def dbl)

lemma metrics_example_lose:
  "calculateHealthMetrics (form_data 30 ''male'' 180 80 1.55 ''lose'') =
     Inr \<lparr>bmi = Text ''24.7'', calories = Fin 2259, category = ''normal''\<rparr>"
proof -
  have b: "spec_BMI (Fin 80) (Fin 180) = Fin (6949999424954469 / 281474976710656)"
    by (simp add: spec_BMI_def dbl)
  have c: "Math_round (spec_target (Fin 2759) ''lose'') = Fin 2259"
    by (simp add: spec_target_def js_sub_def dbl)
  have x: "toFixed1 (Fin (6949999424954469 / 281474976710656)) = Text ''24.7''"
    by (simp add: toFixed1_def digits.simps Let_def)
  have k: "getBMICategory (Fin (6949999424954469 / 281474976710656)) = ''normal''"
    by (simp add: getBMICategory_def)
  have f: "weight (form_data 30 ''male'' 180 80 1.55 ''lose'') = Fin 80"
    "height (form_data 30 ''male'' 180 80 1.55 ''lose'') = Fin 180"
    "goal (form_data 30 ''male'' 180 80 1.55 ''lose'') = ''lose''"
    by (simp_all add: form_data_def)
  show ?thesis
    unfolding metrics_spec f b tdee_example_lose c x k by (rule refl)
qed

lemma tdee_example_gain:
  "spec_input_TDEE (form_data 30 ''male'' 180 80 1.55 ''gain'') =
     Fin 2759"
  by (simp add: spec_input_TDEE_def spec_TDEE_def spec_BMR_def form_data_def js_sub_def dbl)

lemma metrics_example_gain:
  "calculateHealthMetrics (form_data 30 ''male'' 180 80 1.55 ''gain'') =
     Inr \<lparr>bmi = Text ''24.7'', calories = Fin 3259, category = ''normal''\<rparr>"
proof -
  have b: "spec_BMI (Fin 80) (Fin 180) = Fin (6949999424954469 / 281474976710656)"
    by (simp add: spec_BMI_def dbl)
  have c: "Math_round (spec_target (Fin 2759) ''gain'') = Fin 3259"
    by (simp add: spec_target_def js_sub_def dbl)
  have x: "toFixed1 (Fin (6949999424954469 / 281474976710656)) = Text ''24.7''"
    by (simp add: toFixed1_def digits.simps Let_def)
  have k: "getBMICategory (Fin (6949999424954469 / 281474976710656)) = ''normal''"
    by (simp add: getBMICategory_def)
  have f: "weight (form_data 30 ''male'' 180 80 1.55 ''gain'') = Fin 80"
    "height (form_data 30 ''male'' 180 80 1.55 ''gain'') = Fin 180"
    "goal (form_data 30 ''male'' 180 80 1.55 ''gain'') = ''gain''"
    by (simp_all add: form_data_def)
  show ?thesis
    unfolding metrics_spec f b tdee_example_gain c x k by (rule refl)
qed

lemma tdee_170_70:
  "spec_input_TDEE (form_data 25 ''female'' 170 70 1.2 ''maintain'') =
     Fin (7792458808374067 / 4398046511104)"
  by (simp add: spec_input_TDEE_def spec_TDEE_def spec_BMR_def form_data_def js_sub_def dbl)

lemma tdee_160_64:
  "spec_input_TDEE (form_data 30 ''male'' 160 64 1.55 ''maintain'') =
     Fin (9269 / 4)"
  by (simp add: spec_input_TDEE_def spec_TDEE_def spec_BMR_def form_data_def js_sub_def dbl)

lemma metrics_160_64:
  "calculateHealthMetrics (form_data 30 ''male'' 160 64 1.55 ''maintain'') =
     Inr \<lparr>bmi = Text ''25.0'', calories = Fin 2317, category = ''normal''\<rparr>"
proof -
  have b: "spec_BMI (Fin 64) (Fin 160) = Fin (7036874417766399 / 281474976710656)"
    by (simp add: spec_BMI_def dbl)
  have c: "Math_round (spec_target (Fin (9269 / 4)) ''maintain'') = Fin 2317"
    by (simp add: spec_target_def js_sub_def dbl)
  have x: "toFixed1 (Fin (7036874417766399 / 281474976710656)) = Text ''25.0''"
    by (simp add: toFixed1_def digits.simps Let_def)
  have k: "getBMICategory (Fin (7036874417766399 / 281474976710656)) = ''normal''"
    by (simp add: getBMICategory_def)
  have f: "weight (form_data 30 ''male'' 160 64 1.55 ''maintain'') = Fin 64"
    "height (form_data 30 ''male'' 160 64 1.55 ''maintain'') = Fin 160"
    "goal (form_data 30 ''male'' 160 64 1.55 ''maintain'') = ''maintain''"
    by (simp_all add: form_data_def)
  show ?thesis
    unfolding metrics_spec f b tdee_160_64 c x k by (rule refl)
qed

lemma tdee_160_48:
  "spec_input_TDEE (form_data 30 ''male'' 160 48 1.55 ''maintain'') =
     Fin (8277 / 4)"
  by (simp add: spec_input_TDEE_def spec_TDEE_def spec_BMR_def form_data_def js_sub_def dbl)

lemma metrics_160_48:
  "calculateHealthMetrics (form_data 30 ''male'' 160 48 1.55 ''maintain'') =
     Inr \<lparr>bmi = Text ''18.7'', calories = Fin 2069, category = ''normal''\<rparr>"
proof -
  have b: "spec_BMI (Fin 48) (Fin 160) = Fin (5277655813324799 / 281474976710656)"
    by (simp add: spec_BMI_def dbl)
  have c: "Math_round (spec_target (Fin (8277 / 4)) ''maintain'') = Fin 2069"
    by (simp add: spec_target_def js_sub_def dbl)
  have x: "toFixed1 (Fin (5277655813324799 / 281474976710656)) = Text ''18.7''"
    by (simp add: toFixed1_def digits.simps Let_def)
  have k: "getBMICategory (Fin (5277655813324799 / 281474976710656)) = ''normal''"
    by (simp add: getBMICategory_def)
  have f: "weight (form_data 30 ''male'' 160 48 1.55 ''maintain'') = Fin 48"
    "height (form_data 30 ''male'' 160 48 1.55 ''maintain'') = Fin 160"
    "goal (form_data 30 ''male'' 160 48 1.55 ''maintain'') = ''maintain''"
    by (simp_all add: form_data_def)
  show ?thesis
    unfolding metrics_spec f b tdee_160_48 c x k by (rule refl)
qed

lemma tdee_160_57_gain:
  "spec_input_TDEE (form_data 30 ''male'' 160 57 1.38 ''gain'') =
     Fin (8648758464086015 / 4398046511104)"
  by (simp add: spec_input_TDEE_def spec_TDEE_def spec_BMR_def form_data_def js_sub_def dbl)

lemma metrics_160_57_gain:
  "calculateHealthMetrics (form_data 30 ''male'' 160 57 1.38 ''gain'') =
     Inr \<lparr>bmi = Text ''22.3'', calories = Fin 2467, category = ''normal''\<rparr>"
proof -
  have b: "spec_BMI (Fin 57) (Fin 160) = Fin (6267216278323199 / 281474976710656)"
    by (simp add: spec_BMI_def dbl)
  have c: "Math_round (spec_target (Fin (8648758464086015 / 4398046511104)) ''gain'') = Fin 2467"
    by (simp add: spec_target_def js_sub_def dbl)
  have x: "toFixed1 (Fin (6267216278323199 / 281474976710656)) = Text ''22.3''"
    by (simp add: toFixed1_def digits.simps Let_def)
  have k: "getBMICategory (Fin (6267216278323199 / 281474976710656)) = ''normal''"
    by (simp add: getBMICategory_def)
  have f: "weight (form_data 30 ''male'' 160 57 1.38 ''gain'') = Fin 57"
    "height (form_data 30 ''male'' 160 57 1.38 ''gain'') = Fin 160"
    "goal (form_data 30 ''male'' 160 57 1.38 ''gain'') = ''gain''"
    by (simp_all add: form_data_def)
  show ?thesis
    unfolding metrics_spec f b tdee_160_57_gain c x k by (rule refl)
qed

lemma tdee_160_57_maintain:
  "spec_input_TDEE (form_data 30 ''male'' 160 57 1.38 ''maintain'') =
     Fin (8648758464086015 / 4398046511104)"
  by (simp add: spec_input_TDEE_def spec_TDEE_def spec_BMR_def form_data_def js_sub_def dbl)

lemma metrics_160_57_maintain:
  "calculateHealthMetrics (form_data 30 ''male'' 160 57 1.38 ''maintain'') =
     Inr \<lparr>bmi = Text ''22.3'', calories = Fin 1966, category = ''normal''\<rparr>"
proof -
  have b: "spec_BMI (Fin 57) (Fin 160) = Fin (6267216278323199 / 281474976710656)"
    by (simp add: spec_BMI_def dbl)
  have c: "Math_round (spec_target (Fin (8648758464086015 / 4398046511104)) ''maintain'') = Fin 1966"
    by (simp add: spec_target_def js_sub_def dbl)
  have x: "toFixed1 (Fin (6267216278323199 / 281474976710656)) = Text ''22.3''"
    by (simp add: toFixed1_def digits.simps Let_def)
  have k: "getBMICategory (Fin (6267216278323199 / 281474976710656)) = ''normal''"
    by (simp add: getBMICategory_def)
  have f: "weight (form_data 30 ''male'' 160 57 1.38 ''maintain'') = Fin 57"
    "height (form_data 30 ''male'' 160 57 1.38 ''maintain'') = Fin 160"
    "goal (form_data 30 ''male'' 160 57 1.38 ''maintain'') = ''maintain''"
    by (simp_all add: form_data_def)
  show ?thesis
    unfolding metrics_spec f b tdee_160_57_maintain c x k by (rule refl)
qed

lemma tdee_165_60_lose:
  "spec_input_TDEE (form_data 40 ''female'' 165 60 1.375 ''lose'') =
     Fin (55891 / 32)"
  by (simp add: spec_input_TDEE_def spec_TDEE_def spec_BMR_def form_data_def js_sub_def dbl)

lemma tdee_height_zero:
  "spec_input_TDEE (form_data 30 ''male'' 0 80 1.55 ''maintain'') =
     Fin (4061 / 4)"
  by (simp add: spec_input_TDEE_def spec_TDEE_def spec_BMR_def form_data_def js_sub_def dbl)

lemma metrics_height_zero:
  "calculateHealthMetrics (form_data 30 ''male'' 0 80 1.55 ''maintain'') =
     Inr \<lparr>bmi = Text ''Infinity'', calories = Fin 1015, category = ''obese''\<rparr>"
proof -
  have b: "spec_BMI (Fin 80) (Fin 0) = Infinity"
    by (simp add: spec_BMI_def dbl)
  have c: "Math_round (spec_target (Fin (4061 / 4)) ''maintain'') = Fin 1015"
    by (simp add: spec_target_def js_sub_def dbl)
  have x: "toFixed1 (Infinity) = Text ''Infinity''"
    by (simp add: toFixed1_def digits.simps Let_def)
  have k: "getBMICategory (Infinity) = ''obese''"
    by (simp add: getBMICategory_def)
  have f: "weight (form_data 30 ''male'' 0 80 1.55 ''maintain'') = Fin 80"
    "height (form_data 30 ''male'' 0 80 1.55 ''maintain'') = Fin 0"
    "goal (form_data 30 ''male'' 0 80 1.55 ''maintain'') = ''maintain''"
    by (simp_all add: form_data_def)
  show ?thesis
    unfolding metrics_spec f b tdee_height_zero c x k by (rule refl)
qed

lemma tdee_weight_negative:
  "spec_input_TDEE (form_data 30 ''male'' 180 (- 5) 1.55 ''maintain'') =
     Fin (2883 / 2)"
  by (simp add: spec_input_TDEE_def spec_TDEE_def spec_BMR_def form_data_def js_sub_def dbl)

lemma metrics_weight_negative:
  "calculateHealthMetrics (form_data 30 ''male'' 180 (- 5) 1.55 ''maintain'') =
     Inr \<lparr>bmi = Text ''-1.5'', calories = Fin 1442, category = ''underweight''\<rparr>"
proof -
  have b: "spec_BMI (Fin (- 5)) (Fin 180) = Fin (- (6949999424954469 / 4503599627370496))"
    by (simp add: spec_BMI_def dbl)
  have c: "Math_round (spec_target (Fin (2883 / 2)) ''maintain'') = Fin 1442"
    by (simp add: spec_target_def js_sub_def dbl)
  have x: "toFixed1 (Fin (- (6949999424954469 / 4503599627370496))) = Text ''-1.5''"
    by (simp add: toFixed1_def digits.simps Let_def)
  have k: "getBMICategory (Fin (- (6949999424954469 / 4503599627370496))) = ''underweight''"
    by (simp add: getBMICategory_def)
  have f: "weight (form_data 30 ''male'' 180 (- 5) 1.55 ''maintain'') = Fin (- 5)"
    "height (form_data 30 ''male'' 180 (- 5) 1.55 ''maintain'') = Fin 180"
    "goal (form_data 30 ''male'' 180 (- 5) 1.55 ''maintain'') = ''maintain''"
    by (simp_all add: form_data_def)
  show ?thesis
    unfolding metrics_spec f b tdee_weight_negative c x k by (rule refl)
qed

lemma tdee_age_zero:
  "spec_input_TDEE (form_data 0 ''male'' 180 80 1.55 ''maintain'') =
     Fin (5983 / 2)"
  by (simp add: spec_input_TDEE_def spec_TDEE_def spec_BMR_def form_data_def js_sub_def dbl)

lemma metrics_age_zero:
  "calculateHealthMetrics (form_data 0 ''male'' 180 80 1.55 ''maintain'') =
     Inr \<lparr>bmi = Text ''24.7'', calories = Fin 2992, category = ''normal''\<rparr>"
proof -
  have b: "spec_BMI (Fin 80) (Fin 180) = Fin (6949999424954469 / 281474976710656)"
    by (simp add: spec_BMI_def dbl)
  have c: "Math_round (spec_target (Fin (5983 / 2)) ''maintain'') = Fin 2992"
    by (simp add: spec_target_def js_sub_def dbl)
  have x: "toFixed1 (Fin (6949999424954469 / 281474976710656)) = Text ''24.7''"
    by (simp add: toFixed1_def digits.simps Let_def)
  have k: "getBMICategory (Fin (6949999424954469 / 281474976710656)) = ''normal''"
    by (simp add: getBMICategory_def)
  have f: "weight (form_data 0 ''male'' 180 80 1.55 ''maintain'') = Fin 80"
    "height (form_data 0 ''male'' 180 80 1.55 ''maintain'') = Fin 180"
    "goal (form_data 0 ''male'' 180 80 1.55 ''maintain'') = ''maintain''"
    by (simp_all add: form_data_def)
  show ?thesis
    unfolding metrics_spec f b tdee_age_zero c x k by (rule refl)
qed

lemma tdee_height_negative:
  "spec_input_TDEE (form_data 25 ''female'' (- 170) 70 1.2 ''maintain'') =
     Fin (- (6845119589882265 / 8796093022208))"
  by (simp add: spec_input_TDEE_def spec_TDEE_def spec_BMR_def form_data_def js_sub_def dbl)

lemma metrics_height_negative:
  "calculateHealthMetrics (form_data 25 ''female'' (- 170) 70 1.2 ''maintain'') =
     Inr \<lparr>bmi = Text ''24.2'', calories = Fin (- 778), category = ''normal''\<rparr>"
proof -
  have b: "spec_BMI (Fin 70) (Fin (- 170)) = Fin (1704433249978021 / 70368744177664)"
    by (simp add: spec_BMI_def dbl)
  have c: "Math_round (spec_target (Fin (- (6845119589882265 / 8796093022208))) ''maintain'') = Fin (- 778)"
    by (simp add: spec_target_def js_sub_def dbl)
  have x: "toFixed1 (Fin (1704433249978021 / 70368744177664)) = Text ''24.2''"
    by (simp add: toFixed1_def digits.simps Let_def)
  have k: "getBMICategory (Fin (1704433249978021 / 70368744177664)) = ''normal''"
    by (simp add: getBMICategory_def)
  have f: "weight (form_data 25 ''female'' (- 170) 70 1.2 ''maintain'') = Fin 70"
    "height (form_data 25 ''female'' (- 170) 70 1.2 ''maintain'') = Fin (- 170)"
    "goal (form_data 25 ''female'' (- 170) 70 1.2 ''maintain'') = ''maintain''"
    by (simp_all add: form_data_def)
  show ?thesis
    unfolding metrics_spec f b tdee_height_negative c x k by (rule refl)
qed

lemma tdee_other_gender:
  "spec_input_TDEE (form_data 30 ''other'' 180 80 1.55 ''lose'') =
     Fin (5501296478414439 / 2199023255552)"
  by (simp add: spec_input_TDEE_def spec_TDEE_def spec_BMR_def form_data_def js_sub_def dbl)

lemma metrics_other_gender:
  "calculateHealthMetrics (form_data 30 ''other'' 180 80 1.55 ''lose'') =
     Inr \<lparr>bmi = Text ''24.7'', calories = Fin 2002, category = ''normal''\<rparr>"
proof -
  have b: "spec_BMI (Fin 80) (Fin 180) = Fin (6949999424954469 / 281474976710656)"
    by (simp add: spec_BMI_def dbl)
  have c: "Math_round (spec_target (Fin (5501296478414439 / 2199023255552)) ''lose'') = Fin 2002"
    by (simp add: spec_target_def js_sub_def dbl)
  have x: "toFixed1 (Fin (6949999424954469 / 281474976710656)) = Text ''24.7''"
    by (simp add: toFixed1_def digits.simps Let_def)
  have k: "getBMICategory (Fin (6949999424954469 / 281474976710656)) = ''normal''"
    by (simp add: getBMICategory_def)
  have f: "weight (form_data 30 ''other'' 180 80 1.55 ''lose'') = Fin 80"
    "height (form_data 30 ''other'' 180 80 1.55 ''lose'') = Fin 180"
    "goal (form_data 30 ''other'' 180 80 1.55 ''lose'') = ''lose''"
    by (simp_all add: form_data_def)
  show ?thesis
    unfolding metrics_spec f b tdee_other_gender c x k by (rule refl)
qed

lemma tdee_other_goal:
  "spec_input_TDEE (form_data 30 ''male'' 180 80 1.55 ''bulk'') =
     Fin 2759"
  by (simp add: spec_input_TDEE_def spec_TDEE_def spec_BMR_def form_data_def js_sub_def dbl)

lemma metrics_other_goal:
  "calculateHealthMetrics (form_data 30 ''male'' 180 80 1.55 ''bulk'') =
     Inr \<lparr>bmi = Text ''24.7'', calories = Fin 2759, category = ''normal''\<rparr>"
proof -
  have b: "spec_BMI (Fin 80) (Fin 180) = Fin (6949999424954469 / 281474976710656)"
    by (simp add: spec_BMI_def dbl)
  have c: "Math_round (spec_target (Fin 2759) ''bulk'') = Fin 2759"
    by (simp add: spec_target_def js_sub_def dbl)
  have x: "toFixed1 (Fin (6949999424954469 / 281474976710656)) = Text ''24.7''"
    by (simp add: toFixed1_def digits.simps Let_def)
  have k: "getBMICategory (Fin (6949999424954469 / 281474976710656)) = ''normal''"
    by (simp add: getBMICategory_def)
  have f: "weight (form_data 30 ''male'' 180 80 1.55 ''bulk'') = Fin 80"
    "height (form_data 30 ''male'' 180 80 1.55 ''bulk'') = Fin 180"
    "goal (form_data 30 ''male'' 180 80 1.55 ''bulk'') = ''bulk''"
    by (simp_all add: form_data_def)
  show ?thesis
    unfolding metrics_spec f b tdee_other_goal c x k by (rule refl)
qed

lemma tdee_180_47_bulk:
  "spec_input_TDEE (form_data 30 ''male'' 180 47 1.13 ''bulk'') =
     Fin (7206199208443903 / 4398046511104)"
  by (simp add: spec_input_TDEE_def spec_TDEE_def spec_BMR_def form_data_def js_sub_def dbl)

lemma metrics_180_47_bulk:
  "calculateHealthMetrics (form_data 30 ''male'' 180 47 1.13 ''bulk'') =
     Inr \<lparr>bmi = Text ''14.5'', calories = Fin 1638, category = ''underweight''\<rparr>"
proof -
  have b: "spec_BMI (Fin 47) (Fin 180) = Fin (8166249324321501 / 562949953421312)"
    by (simp add: spec_BMI_def dbl)
  have c: "Math_round (spec_target (Fin (7206199208443903 / 4398046511104)) ''bulk'') = Fin 1638"
    by (simp add: spec_target_def js_sub_def dbl)
  have x: "toFixed1 (Fin (8166249324321501 / 562949953421312)) = Text ''14.5''"
    by (simp add: toFixed1_def digits.simps Let_def)
  have k: "getBMICategory (Fin (8166249324321501 / 562949953421312)) = ''underweight''"
    by (simp add: getBMICategory_def)
  have f: "weight (form_data 30 ''male'' 180 47 1.13 ''bulk'') = Fin 47"
    "height (form_data 30 ''male'' 180 47 1.13 ''bulk'') = Fin 180"
    "goal (form_data 30 ''male'' 180 47 1.13 ''bulk'') = ''bulk''"
    by (simp_all add: form_data_def)
  show ?thesis
    unfolding metrics_spec f b tdee_180_47_bulk c x k by (rule refl)
qed

lemma tdee_zero_negative:
  "spec_input_TDEE (form_data 30 ''male'' 0 (- 5) 1.55 ''maintain'') =
     Fin (- (1209 / 4))"
  by (simp add: spec_input_TDEE_def spec_TDEE_def spec_BMR_def form_data_def js_sub_def dbl)

lemma metrics_zero_negative:
  "calculateHealthMetrics (form_data 30 ''male'' 0 (- 5) 1.55 ''maintain'') =
     Inr \<lparr>bmi = Text ''-Infinity'', calories = Fin (- 302), category = ''underweight''\<rparr>"
proof -
  have b: "spec_BMI (Fin (- 5)) (Fin 0) = NegInfinity"
    by (simp add: spec_BMI_def dbl)
  have c: "Math_round (spec_target (Fin (- (1209 / 4))) ''maintain'') = Fin (- 302)"
    by (simp add: spec_target_def js_sub_def dbl)
  have x: "toFixed1 (NegInfinity) = Text ''-Infinity''"
    by (simp add: toFixed1_def digits.simps Let_def)
  have k: "getBMICategory (NegInfinity) = ''underweight''"
    by (simp add: getBMICategory_def)
  have f: "weight (form_data 30 ''male'' 0 (- 5) 1.55 ''maintain'') = Fin (- 5)"
    "height (form_data 30 ''male'' 0 (- 5) 1.55 ''maintain'') = Fin 0"
    "goal (form_data 30 ''male'' 0 (- 5) 1.55 ''maintain'') = ''maintain''"
    by (simp_all add: form_data_def)
  show ?thesis
    unfolding metrics_spec f b tdee_zero_negative c x k by (rule refl)
qed




section \<open>Properties\<close>

text \<open>
  C1 (as amended): calculateHealthMetrics checks none of its inputs. For every input whose
  height is not strictly positive, or whose weight is not strictly positive, or whose age
  is not a positive integer below 150, it raises no error and returns the result that the
  formulas give on the values as they are: the BMI, the category of that BMI and the
  rounded calorie target. For height -170, weight 70, age 25 this is BMI 24.2, normal,
  with the negative target -778.
\<close>

theorem calculateHealthMetrics_no_validation:
  "(\<not> positive (height d) \<or> \<not> positive (weight d) \<or> \<not> valid_age (age d) \<longrightarrow>
      calculateHealthMetrics d =
        Inr \<lparr>bmi = toFixed1 (spec_BMI (weight d) (height d)),
             calories = Math_round (spec_target (spec_input_TDEE d) (goal d)),
             category = getBMICategory (spec_BMI (weight d) (height d))\<rparr> \<and>
      (\<forall>e. calculateHealthMetrics d \<noteq> Inl e)) \<and>
   calculateHealthMetrics (form_data 25 ''female'' (- 170) 70 1.2 ''maintain'') =
     Inr \<lparr>bmi = Text ''24.2'', calories = Fin (- 778), category = ''normal''\<rparr>"
proof -
  have "calculateHealthMetrics d =
        Inr \<lparr>bmi = toFixed1 (spec_BMI (weight d) (height d)),
             calories = Math_round (spec_target (spec_input_TDEE d) (goal d)),
             category = getBMICategory (spec_BMI (weight d) (height d))\<rparr>"
    by (rule metrics_spec)
  moreover from this have "\<forall>e. calculateHealthMetrics d \<noteq> Inl e"
    by simp
  ultimately show ?thesis
    using metrics_height_negative by blast
qed

theorem calculateHealthMetrics_no_validation_witness:
  "\<not> positive (height (form_data 30 ''male'' 0 80 1.55 ''maintain'')) \<and>
   calculateHealthMetrics (form_data 30 ''male'' 0 80 1.55 ''maintain'') =
     Inr \<lparr>bmi = Text ''Infinity'', calories = Fin 1015, category = ''obese''\<rparr>"
proof -
  let ?d = "form_data 30 ''male'' 0 80 1.55 ''maintain''"
  have n: "\<not> positive (height ?d)"
    by (simp add: form_data_def)
  then have h: "\<not> positive (height ?d) \<or> \<not> positive (weight ?d) \<or> \<not> valid_age (age ?d)"
    by (rule disjI1)
  have f: "weight ?d = Fin 80" "height ?d = Fin 0" "goal ?d = ''maintain''"
    by (simp_all add: form_data_def)
  have b: "spec_BMI (Fin 80) (Fin 0) = Infinity"
    by (simp add: spec_BMI_def to_double_def)
  have c: "Math_round (spec_target (Fin (4061 / 4)) ''maintain'') = Fin 1015"
    by (simp add: spec_target_def)
  have x: "toFixed1 Infinity = Text ''Infinity''"
    by (simp add: toFixed1_def)
  have k: "getBMICategory Infinity = ''obese''"
    by (simp add: getBMICategory_def)
  have "calculateHealthMetrics ?d =
     Inr \<lparr>bmi = Text ''Infinity'', calories = Fin 1015, category = ''obese''\<rparr>"
    using calculateHealthMetrics_no_validation [THEN conjunct1, THEN mp, OF h, THEN conjunct1]
    unfolding f b tdee_height_zero c x k .
  with n show ?thesis by (rule conjI)
qed

text \<open>
  C1 as stated fails: for height 0, for weight -5 and for age 0 the function raises nothing
  and returns a result.
\<close>

theorem calculateHealthMetrics_no_validation_counterexample:
  "\<not> positive (Fin 0) \<and> \<not> positive (Fin (- 5)) \<and> \<not> valid_age (Fin 0) \<and>
   calculateHealthMetrics (form_data 30 ''male'' 0 80 1.55 ''maintain'') =
     Inr \<lparr>bmi = Text ''Infinity'', calories = Fin 1015, category = ''obese''\<rparr> \<and>
   calculateHealthMetrics (form_data 30 ''male'' 180 (- 5) 1.55 ''maintain'') =
     Inr \<lparr>bmi = Text ''-1.5'', calories = Fin 1442, category = ''underweight''\<rparr> \<and>
   calculateHealthMetrics (form_data 0 ''male'' 180 80 1.55 ''maintain'') =
     Inr \<lparr>bmi = Text ''24.7'', calories = Fin 2992, category = ''normal''\<rparr>"
  using metrics_height_zero metrics_weight_negative metrics_age_zero by simp

text \<open>
  C2 (as amended): for every valid input the engine computes BMI = weightKg /
  (heightCm/100)^2, BMR = 10 weightKg + 6.25 heightCm - 5 age, plus 5 for gender male and
  minus 161 otherwise, and TDEE = BMR times the activity factor, every operation being the
  one of double arithmetic with its result rounded to the nearest double. The result holds
  that BMI printed with one decimal, the category of that BMI, and the rounded target. For
  age 30, male, 180 cm, 80 kg, activity 1.55 and goal maintain the TDEE is 2759 and the
  daily calorie target is 2759.
\<close>

theorem calculateHealthMetrics_formulas:
  "(spec_valid_input d \<longrightarrow>
      calculateHealthMetrics d =
        Inr \<lparr>bmi = toFixed1 (spec_BMI (weight d) (height d)),
             calories = Math_round (spec_target (spec_input_TDEE d) (goal d)),
             category = getBMICategory (spec_BMI (weight d) (height d))\<rparr>) \<and>
   spec_input_TDEE (form_data 30 ''male'' 180 80 1.55 ''maintain'') = Fin 2759 \<and>
   calculateHealthMetrics (form_data 30 ''male'' 180 80 1.55 ''maintain'') =
     Inr \<lparr>bmi = Text ''24.7'', calories = Fin 2759, category = ''normal''\<rparr>"
proof -
  have "calculateHealthMetrics d =
        Inr \<lparr>bmi = toFixed1 (spec_BMI (weight d) (height d)),
             calories = Math_round (spec_target (spec_input_TDEE d) (goal d)),
             category = getBMICategory (spec_BMI (weight d) (height d))\<rparr>"
    by (rule metrics_spec)
  then show ?thesis
    using tdee_example_maintain metrics_example_maintain by blast
qed

theorem calculateHealthMetrics_formulas_witness:
  "spec_valid_input (form_data 25 ''female'' 170 70 1.2 ''maintain'') \<and>
   calculateHealthMetrics (form_data 25 ''female'' 170 70 1.2 ''maintain'') =
     Inr \<lparr>bmi = Text ''24.2'', calories = Fin 1772, category = ''normal''\<rparr>"
proof -
  let ?d = "form_data 25 ''female'' 170 70 1.2 ''maintain''"
  have v: "spec_valid_input ?d"
    by (simp add: spec_valid_input_def form_data_def)
  have f: "weight ?d = Fin 70" "height ?d = Fin 170" "goal ?d = ''maintain''"
    by (simp_all add: form_data_def)
  have b: "spec_BMI (Fin 70) (Fin 170) = Fin (1704433249978021 / 70368744177664)"
    by (simp add: spec_BMI_def dbl)
  have x: "toFixed1 (Fin (1704433249978021 / 70368744177664)) = Text ''24.2''"
    by (simp add: toFixed1_def Let_def digits.simps)
  have k: "getBMICategory (Fin (1704433249978021 / 70368744177664)) = ''normal''"
    by (simp add: getBMICategory_def)
  have t: "spec_input_TDEE ?d = Fin (7792458808374067 / 4398046511104)"
    by (rule tdee_170_70)
  have c: "Math_round (spec_target (Fin (7792458808374067 / 4398046511104)) ''maintain'') = Fin 1772"
    by (simp add: spec_target_def)
  have "calculateHealthMetrics ?d =
     Inr \<lparr>bmi = Text ''24.2'', calories = Fin 1772, category = ''normal''\<rparr>"
    using calculateHealthMetrics_formulas [THEN conjunct1, THEN mp, OF v]
    unfolding f b t c x k .
  with v show ?thesis by (rule conjI)
qed

text \<open>
  C2 as stated fails: the formula over the reals gives BMI 25 for 160 cm and 64 kg, which
  is overweight, while the engine computes a BMI just below 25 and returns normal; for
  160 cm and 48 kg the formula gives 18.75, printed 18.8, while the engine returns 18.7.
\<close>

theorem calculateHealthMetrics_formulas_counterexample:
  "spec_valid_input (form_data 30 ''male'' 160 64 1.55 ''maintain'') \<and>
   exact_BMI 64 160 = 25 \<and>
   getBMICategory (Fin (exact_BMI 64 160)) = ''overweight'' \<and>
   calculateHealthMetrics (form_data 30 ''male'' 160 64 1.55 ''maintain'') =
     Inr \<lparr>bmi = Text ''25.0'', calories = Fin 2317, category = ''normal''\<rparr> \<and>
   spec_valid_input (form_data 30 ''male'' 160 48 1.55 ''maintain'') \<and>
   toFixed1 (Fin (exact_BMI 48 160)) = Text ''18.8'' \<and>
   calculateHealthMetrics (form_data 30 ''male'' 160 48 1.55 ''maintain'') =
     Inr \<lparr>bmi = Text ''18.7'', calories = Fin 2069, category = ''normal''\<rparr>"
proof -
  have v: "spec_valid_input (form_data 30 ''male'' 160 64 1.55 ''maintain'')"
    "spec_valid_input (form_data 30 ''male'' 160 48 1.55 ''maintain'')"
    by (simp_all add: spec_valid_input_def form_data_def)
  have e: "exact_BMI 64 160 = 25"
    by (simp add: exact_BMI_def power2_eq_square)
  have k: "getBMICategory (Fin (exact_BMI 64 160)) = ''overweight''"
    unfolding e by (simp add: getBMICategory_def)
  have t: "toFixed1 (Fin (exact_BMI 48 160)) = Text ''18.8''"
    by (simp add: exact_BMI_def power2_eq_square toFixed1_def Let_def digits.simps)
  show ?thesis
    by (intro conjI v e k t metrics_160_64 metrics_160_48)
qed

text \<open>
  C3: the BMI category is defined for every real BMI, and its four ranges are half-open and
  disjoint: below 18.5 underweight, from 18.5 to below 25 normal, from 25 to below 30
  overweight, from 30 on obese. BMI 18.5 is normal, 25 is overweight and 30 is obese.
\<close>

theorem getBMICategory_ranges:
  "(getBMICategory (Fin b) = ''underweight'' \<longleftrightarrow> b < 18.5) \<and>
   (getBMICategory (Fin b) = ''normal'' \<longleftrightarrow> 18.5 \<le> b \<and> b < 25) \<and>
   (getBMICategory (Fin b) = ''overweight'' \<longleftrightarrow> 25 \<le> b \<and> b < 30) \<and>
   (getBMICategory (Fin b) = ''obese'' \<longleftrightarrow> 30 \<le> b) \<and>
   getBMICategory (Fin b) \<in> {''underweight'', ''normal'', ''overweight'', ''obese''} \<and>
   getBMICategory (Fin 18.5) = ''normal'' \<and>
   getBMICategory (Fin 25.0) = ''overweight'' \<and>
   getBMICategory (Fin 30.0) = ''obese''"
  by (simp add: getBMICategory_def)

text \<open>
  C4 (as amended): for every valid input the daily calorie target is the TDEE with the
  adjustment of the goal applied first, in double arithmetic, and rounded afterwards:
  Math.round(TDEE - 500) for lose, Math.round(TDEE + 500) for gain, and the rounded TDEE
  itself for maintain and for any other goal. With a TDEE of 2759 the target is 2259 for
  lose and 3259 for gain.
\<close>

theorem calorie_target_by_goal:
  "(spec_valid_input d \<longrightarrow>
      (\<exists>r. calculateHealthMetrics d = Inr r \<and>
           calories r =
             (if goal d = ''lose'' then Math_round (js_sub (spec_input_TDEE d) (Fin 500))
              else if goal d = ''gain'' then Math_round (js_add (spec_input_TDEE d) (Fin 500))
              else Math_round (spec_input_TDEE d)))) \<and>
   Math_round (spec_input_TDEE (form_data 30 ''male'' 180 80 1.55 ''lose'')) = Fin 2759 \<and>
   (\<exists>r. calculateHealthMetrics (form_data 30 ''male'' 180 80 1.55 ''lose'') = Inr r \<and>
        calories r = Fin 2259) \<and>
   Math_round (spec_input_TDEE (form_data 30 ''male'' 180 80 1.55 ''gain'')) = Fin 2759 \<and>
   (\<exists>r. calculateHealthMetrics (form_data 30 ''male'' 180 80 1.55 ''gain'') = Inr r \<and>
        calories r = Fin 3259)"
proof -
  have a: "\<exists>r. calculateHealthMetrics d = Inr r \<and>
           calories r =
             (if goal d = ''lose'' then Math_round (js_sub (spec_input_TDEE d) (Fin 500))
              else if goal d = ''gain'' then Math_round (js_add (spec_input_TDEE d) (Fin 500))
              else Math_round (spec_input_TDEE d))"
    unfolding metrics_spec by (simp add: spec_target_def)
  have b: "Math_round (spec_input_TDEE (form_data 30 ''male'' 180 80 1.55 ''lose'')) = Fin 2759"
    unfolding tdee_example_lose by simp
  have c: "Math_round (spec_input_TDEE (form_data 30 ''male'' 180 80 1.55 ''gain'')) = Fin 2759"
    unfolding tdee_example_gain by simp
  have l: "\<exists>r. calculateHealthMetrics (form_data 30 ''male'' 180 80 1.55 ''lose'') = Inr r \<and>
        calories r = Fin 2259"
    unfolding metrics_example_lose by simp
  have g: "\<exists>r. calculateHealthMetrics (form_data 30 ''male'' 180 80 1.55 ''gain'') = Inr r \<and>
        calories r = Fin 3259"
    unfolding metrics_example_gain by simp
  from a b c l g show ?thesis by blast
qed

theorem calorie_target_by_goal_witness:
  "spec_valid_input (form_data 40 ''female'' 165 60 1.375 ''lose'') \<and>
   spec_input_TDEE (form_data 40 ''female'' 165 60 1.375 ''lose'') = Fin (55891 / 32) \<and>
   (\<exists>r. calculateHealthMetrics (form_data 40 ''female'' 165 60 1.375 ''lose'') = Inr r \<and>
        calories r = Fin 1247)"
proof -
  let ?d = "form_data 40 ''female'' 165 60 1.375 ''lose''"
  have v: "spec_valid_input ?d"
    by (simp add: spec_valid_input_def form_data_def)
  have gl: "goal ?d = ''lose''"
    by (simp add: form_data_def)
  have i: "(if ''lose'' = ''lose'' then Math_round (js_sub (Fin (55891 / 32)) (Fin 500))
         else if ''lose'' = ''gain'' then Math_round (js_add (Fin (55891 / 32)) (Fin 500))
         else Math_round (Fin (55891 / 32))) = Fin 1247"
    by (simp add: js_sub_def dbl)
  have "\<exists>r. calculateHealthMetrics ?d = Inr r \<and> calories r = Fin 1247"
    using calorie_target_by_goal [THEN conjunct1, THEN mp, OF v]
    unfolding gl tdee_165_60_lose i .
  then show ?thesis
    by (intro conjI v tdee_165_60_lose)
qed

text \<open>
  C4 as stated fails: for age 30, male, 160 cm, 57 kg, activity 1.38 the TDEE is
  1966.4999999999998, which rounds to 1966, but TDEE + 500 is 2466.5 in double arithmetic
  and the target for the goal gain is 2467, not 2466.
\<close>

theorem calorie_target_by_goal_counterexample:
  "spec_valid_input (form_data 30 ''male'' 160 57 1.38 ''gain'') \<and>
   Math_round (spec_input_TDEE (form_data 30 ''male'' 160 57 1.38 ''gain'')) = Fin 1966 \<and>
   calculateHealthMetrics (form_data 30 ''male'' 160 57 1.38 ''gain'') =
     Inr \<lparr>bmi = Text ''22.3'', calories = Fin 2467, category = ''normal''\<rparr> \<and>
   calculateHealthMetrics (form_data 30 ''male'' 160 57 1.38 ''maintain'') =
     Inr \<lparr>bmi = Text ''22.3'', calories = Fin 1966, category = ''normal''\<rparr> \<and>
   Fin 2467 \<noteq> Fin (1966 + 500)"
proof -
  have v: "spec_valid_input (form_data 30 ''male'' 160 57 1.38 ''gain'')"
    by (simp add: spec_valid_input_def form_data_def)
  have t: "Math_round (spec_input_TDEE (form_data 30 ''male'' 160 57 1.38 ''gain'')) = Fin 1966"
    unfolding tdee_160_57_gain by simp
  have n: "Fin 2467 \<noteq> Fin (1966 + 500)"
    by simp
  show ?thesis
    by (intro conjI v t metrics_160_57_gain metrics_160_57_maintain n)
qed



text \<open>
  C6 (as amended): for every starting weight and goal the labels of the projection are
  "Week 1" to "Week 4", in this order; the word is Week, not Period.
\<close>

theorem renderCharts_labels:
  "\<exists>ch. renderCharts b c w g = Inr ch \<and>
        labels (weightChart ch) = [''Week 1'', ''Week 2'', ''Week 3'', ''Week 4''] \<and>
        labels (weightChart ch) = map (\<lambda>k. ''Week '' @ digits k) [1, 2, 3, 4] \<and>
        length (labels (weightChart ch)) = length (dataset (weightChart ch))"
proof -
  have "map (\<lambda>k. ''Week '' @ digits k) [1, 2, 3, 4] = [''Week 1'', ''Week 2'', ''Week 3'', ''Week 4'']"
    by (simp add: digits.simps)
  then show ?thesis
    using renderCharts_weightChart [of b c w g] by (auto simp add: accumulate_four)
qed

text \<open>
  C6 as stated fails: the labels of the projection from 80 kg with the goal lose are not
  "Period 1" to "Period 4".
\<close>

theorem renderCharts_labels_counterexample:
  "\<not> isl (renderCharts (Text ''24.7'') (Fin 2759) (Fin 80) ''lose'') \<and>
   labels (weightChart (projr (renderCharts (Text ''24.7'') (Fin 2759) (Fin 80) ''lose''))) \<noteq>
     [''Period 1'', ''Period 2'', ''Period 3'', ''Period 4'']"
  by (simp add: renderCharts_def Let_def)

text \<open>
  C7 (as amended): for every preference other than non-veg, veg and vegan, and any goal,
  rendering the diet plan raises the built-in TypeError (from \<open>items.forEach\<close> on a missing
  catalog entry) and produces no plan; for the three recognised preferences it raises
  nothing.
\<close>

theorem renderDietPlan_unknown_preference:
  "(pref \<notin> {''non-veg'', ''veg'', ''vegan''} \<longrightarrow>
      renderDietPlan pref g = Inl (JSError ''TypeError'') \<and>
      (\<forall>plan. renderDietPlan pref g \<noteq> Inr plan)) \<and>
   (pref \<in> {''non-veg'', ''veg'', ''vegan''} \<longrightarrow> (\<forall>e. renderDietPlan pref g \<noteq> Inl e))"
proof -
  have a: "renderDietPlan pref g = Inl (JSError ''TypeError'') \<and>
      (\<forall>plan. renderDietPlan pref g \<noteq> Inr plan)"
    if "pref \<notin> {''non-veg'', ''veg'', ''vegan''}"
  proof -
    from that have "map_of HEALTH_DATA_diets pref = None"
      by (simp add: diets_unknown)
    then show ?thesis
      by (simp add: renderDietPlan_def)
  qed
  have b: "\<forall>e. renderDietPlan pref g \<noteq> Inl e"
    if "pref \<in> {''non-veg'', ''veg'', ''vegan''}"
  proof -
    from that have "\<exists>items. map_of HEALTH_DATA_diets pref = Some items"
      using diets_lookup by auto
    then show ?thesis
      by (auto simp add: renderDietPlan_def Let_def)
  qed
  from a b show ?thesis by blast
qed

theorem renderDietPlan_unknown_preference_witness:
  "''invalid-pref'' \<notin> {''non-veg'', ''veg'', ''vegan''} \<and>
   renderDietPlan ''invalid-pref'' ''gain'' = Inl (JSError ''TypeError'') \<and>
   ''veg'' \<in> {''non-veg'', ''veg'', ''vegan''} \<and>
   renderDietPlan ''veg'' ''gain'' \<noteq> Inl (JSError ''TypeError'')"
proof -
  have n: "''invalid-pref'' \<notin> {''non-veg'', ''veg'', ''vegan''}"
    by simp
  have v: "''veg'' \<in> {''non-veg'', ''veg'', ''vegan''}"
    by simp
  have e: "renderDietPlan ''invalid-pref'' ''gain'' = Inl (JSError ''TypeError'')"
    using renderDietPlan_unknown_preference [THEN conjunct1, THEN mp, OF n, THEN conjunct1] .
  have "\<forall>e. renderDietPlan ''veg'' ''gain'' \<noteq> Inl e"
    using renderDietPlan_unknown_preference [THEN conjunct2, THEN mp, OF v] .
  then have f: "renderDietPlan ''veg'' ''gain'' \<noteq> Inl (JSError ''TypeError'')"
    by (rule spec)
  show ?thesis
    by (intro conjI n e v f)
qed

text \<open>
  C7 as stated fails: for the preference invalid-pref the exception raised is a TypeError,
  not an UnknownPreferenceError.
\<close>

theorem renderDietPlan_unknown_preference_counterexample:
  "renderDietPlan ''invalid-pref'' ''gain'' = Inl (JSError ''TypeError'') \<and>
   renderDietPlan ''invalid-pref'' ''gain'' \<noteq> Inl (JSError ''UnknownPreferenceError'')"
  by (simp add: renderDietPlan_def HEALTH_DATA_diets_def)

text \<open>
  C8: for each of the three preferences the plan shows exactly the three entries of the
  static catalog of that preference, in order and whatever the goal, followed by the weekly
  target change: 0kg per week for the goal maintain, 0.5kg per week for any other goal. The
  markup assigned to the page is written out in full.
\<close>

theorem renderDietPlan_catalog:
  \<open>pref \<in> {''non-veg'', ''veg'', ''vegan''} \<Longrightarrow>
   \<exists>m1 m2 m3.
     map_of HEALTH_DATA_diets pref = Some [m1, m2, m3] \<and>
     [m1, m2, m3] =
       (if pref = ''non-veg''
          then [''Grilled Salmon with Asparagus'', ''Chicken Quinoa Bowl'', ''Greek Yogurt & Berries'']
          else if pref = ''veg''
          then [''Lentil Curry with Brown Rice'', ''Roasted Chickpea Salad'', ''Cottage Cheese Stir-fry'']
          else [''Tofu Scramble'', ''Sweet Potato & Black Bean Tacos'', ''Tempeh Buddha Bowl'']) \<and>
     (\<forall>g. renderDietPlan pref g = Inr (
        ''<p style="margin-bottom:15px; color:var(--text-muted)">Based on your <strong>'' @ pref @
        ''</strong> preference and <strong>'' @ g @ ''</strong> goal:</p>'' @
        ''\<newline>            <div class="diet-item">\<newline>                <span class="badge" style="margin-right:10px">Meal 01</span>\<newline>                <strong>'' @ m1 @
        ''</strong>\<newline>            </div>\<newline>        '' @
        ''\<newline>            <div class="diet-item">\<newline>                <span class="badge" style="margin-right:10px">Meal 02</span>\<newline>                <strong>'' @ m2 @
        ''</strong>\<newline>            </div>\<newline>        '' @
        ''\<newline>            <div class="diet-item">\<newline>                <span class="badge" style="margin-right:10px">Meal 03</span>\<newline>                <strong>'' @ m3 @
        ''</strong>\<newline>            </div>\<newline>        '' @
        ''\<newline>        <div class="diet-item" style="border:none; margin-top:10px">\<newline>            <h4>'' @
        [CHR 0xF0, CHR 0x9F, CHR 0x92, CHR 0xA1] @
        '' Weekly Roadmap</h4>\<newline>            <p style="font-size:0.9rem; color:var(--text-muted)">\<newline>                Target change: '' @
        (if g = ''maintain'' then ''0kg'' else ''0.5kg'') @
        '' / week. \<newline>                Keep hydration above 3L/day.\<newline>            </p>\<newline>        </div>\<newline>    ''))\<close>
proof -
  assume "pref \<in> {''non-veg'', ''veg'', ''vegan''}"
  then consider "pref = ''non-veg''" | "pref = ''veg''" | "pref = ''vegan''"
    by auto
  then show ?thesis
  proof cases
    case 1
    show ?thesis
      unfolding 1
      by (intro exI [of _ "''Grilled Salmon with Asparagus''"] exI [of _ "''Chicken Quinoa Bowl''"]
          exI [of _ "''Greek Yogurt & Berries''"])
        (simp add: renderDietPlan_three [OF diets_lookup(1)] diets_lookup diet_intro_def
          diet_item_def diet_roadmap_def digits.simps)
  next
    case 2
    show ?thesis
      unfolding 2
      by (intro exI [of _ "''Lentil Curry with Brown Rice''"] exI [of _ "''Roasted Chickpea Salad''"]
          exI [of _ "''Cottage Cheese Stir-fry''"])
        (simp add: renderDietPlan_three [OF diets_lookup(2)] diets_lookup diet_intro_def
          diet_item_def diet_roadmap_def digits.simps)
  next
    case 3
    show ?thesis
      unfolding 3
      by (intro exI [of _ "''Tofu Scramble''"] exI [of _ "''Sweet Potato & Black Bean Tacos''"]
          exI [of _ "''Tempeh Buddha Bowl''"])
        (simp add: renderDietPlan_three [OF diets_lookup(3)] diets_lookup diet_intro_def
          diet_item_def diet_roadmap_def digits.simps)
  qed
qed

theorem renderDietPlan_catalog_witness:
  \<open>''vegan'' \<in> {''non-veg'', ''veg'', ''vegan''} \<and>
   renderDietPlan ''vegan'' ''gain'' = Inr (
        ''<p style="margin-bottom:15px; color:var(--text-muted)">Based on your <strong>'' @ ''vegan'' @
        ''</strong> preference and <strong>'' @ ''gain'' @ ''</strong> goal:</p>'' @
        ''\<newline>            <div class="diet-item">\<newline>                <span class="badge" style="margin-right:10px">Meal 01</span>\<newline>                <strong>'' @ ''Tofu Scramble'' @
        ''</strong>\<newline>            </div>\<newline>        '' @
        ''\<newline>            <div class="diet-item">\<newline>                <span class="badge" style="margin-right:10px">Meal 02</span>\<newline>                <strong>'' @ ''Sweet Potato & Black Bean Tacos'' @
        ''</strong>\<newline>            </div>\<newline>        '' @
        ''\<newline>            <div class="diet-item">\<newline>                <span class="badge" style="margin-right:10px">Meal 03</span>\<newline>                <strong>'' @ ''Tempeh Buddha Bowl'' @
        ''</strong>\<newline>            </div>\<newline>        '' @
        ''\<newline>        <div class="diet-item" style="border:none; margin-top:10px">\<newline>            <h4>'' @
        [CHR 0xF0, CHR 0x9F, CHR 0x92, CHR 0xA1] @
        '' Weekly Roadmap</h4>\<newline>            <p style="font-size:0.9rem; color:var(--text-muted)">\<newline>                Target change: '' @
        ''0.5kg'' @
        '' / week. \<newline>                Keep hydration above 3L/day.\<newline>            </p>\<newline>        </div>\<newline>    '') \<and>
   renderDietPlan ''vegan'' ''maintain'' = Inr (
        ''<p style="margin-bottom:15px; color:var(--text-muted)">Based on your <strong>'' @ ''vegan'' @
        ''</strong> preference and <strong>'' @ ''maintain'' @ ''</strong> goal:</p>'' @
        ''\<newline>            <div class="diet-item">\<newline>                <span class="badge" style="margin-right:10px">Meal 01</span>\<newline>                <strong>'' @ ''Tofu Scramble'' @
        ''</strong>\<newline>            </div>\<newline>        '' @
        ''\<newline>            <div class="diet-item">\<newline>                <span class="badge" style="margin-right:10px">Meal 02</span>\<newline>                <strong>'' @ ''Sweet Potato & Black Bean Tacos'' @
        ''</strong>\<newline>            </div>\<newline>        '' @
        ''\<newline>            <div class="diet-item">\<newline>                <span class="badge" style="margin-right:10px">Meal 03</span>\<newline>                <strong>'' @ ''Tempeh Buddha Bowl'' @
        ''</strong>\<newline>            </div>\<newline>        '' @
        ''\<newline>        <div class="diet-item" style="border:none; margin-top:10px">\<newline>            <h4>'' @
        [CHR 0xF0, CHR 0x9F, CHR 0x92, CHR 0xA1] @
        '' Weekly Roadmap</h4>\<newline>            <p style="font-size:0.9rem; color:var(--text-muted)">\<newline>                Target change: '' @
        ''0kg'' @
        '' / week. \<newline>                Keep hydration above 3L/day.\<newline>            </p>\<newline>        </div>\<newline>    '')\<close>
proof -
  have v: "''vegan'' \<in> {''non-veg'', ''veg'', ''vegan''}"
    by simp
  obtain m1 m2 m3 where
    ms: \<open>[m1, m2, m3] =
       (if ''vegan'' = ''non-veg''
          then [''Grilled Salmon with Asparagus'', ''Chicken Quinoa Bowl'', ''Greek Yogurt & Berries'']
          else if ''vegan'' = ''veg''
          then [''Lentil Curry with Brown Rice'', ''Roasted Chickpea Salad'', ''Cottage Cheese Stir-fry'']
          else [''Tofu Scramble'', ''Sweet Potato & Black Bean Tacos'', ''Tempeh Buddha Bowl''])\<close>
    and r: \<open>\<And>g. renderDietPlan ''vegan'' g = Inr (
        ''<p style="margin-bottom:15px; color:var(--text-muted)">Based on your <strong>'' @ ''vegan'' @
        ''</strong> preference and <strong>'' @ g @ ''</strong> goal:</p>'' @
        ''\<newline>            <div class="diet-item">\<newline>                <span class="badge" style="margin-right:10px">Meal 01</span>\<newline>                <strong>'' @ m1 @
        ''</strong>\<newline>            </div>\<newline>        '' @
        ''\<newline>            <div class="diet-item">\<newline>                <span class="badge" style="margin-right:10px">Meal 02</span>\<newline>                <strong>'' @ m2 @
        ''</strong>\<newline>            </div>\<newline>        '' @
        ''\<newline>            <div class="diet-item">\<newline>                <span class="badge" style="margin-right:10px">Meal 03</span>\<newline>                <strong>'' @ m3 @
        ''</strong>\<newline>            </div>\<newline>        '' @
        ''\<newline>        <div class="diet-item" style="border:none; margin-top:10px">\<newline>            <h4>'' @
        [CHR 0xF0, CHR 0x9F, CHR 0x92, CHR 0xA1] @
        '' Weekly Roadmap</h4>\<newline>            <p style="font-size:0.9rem; color:var(--text-muted)">\<newline>                Target change: '' @
        (if g = ''maintain'' then ''0kg'' else ''0.5kg'') @
        '' / week. \<newline>                Keep hydration above 3L/day.\<newline>            </p>\<newline>        </div>\<newline>    '')\<close>
    using renderDietPlan_catalog [OF v] by blast
  from ms have e: "m1 = ''Tofu Scramble''" "m2 = ''Sweet Potato & Black Bean Tacos''"
      "m3 = ''Tempeh Buddha Bowl''"
    by simp_all
  have g1: "(if ''gain'' = ''maintain'' then ''0kg'' else ''0.5kg'') = ''0.5kg''"
    by simp
  have g2: "(if ''maintain'' = ''maintain'' then ''0kg'' else ''0.5kg'') = ''0kg''"
    by simp
  have a: \<open>renderDietPlan ''vegan'' ''gain'' = Inr (
        ''<p style="margin-bottom:15px; color:var(--text-muted)">Based on your <strong>'' @ ''vegan'' @
        ''</strong> preference and <strong>'' @ ''gain'' @ ''</strong> goal:</p>'' @
        ''\<newline>            <div class="diet-item">\<newline>                <span class="badge" style="margin-right:10px">Meal 01</span>\<newline>                <strong>'' @ ''Tofu Scramble'' @
        ''</strong>\<newline>            </div>\<newline>        '' @
        ''\<newline>            <div class="diet-item">\<newline>                <span class="badge" style="margin-right:10px">Meal 02</span>\<newline>                <strong>'' @ ''Sweet Potato & Black Bean Tacos'' @
        ''</strong>\<newline>            </div>\<newline>        '' @
        ''\<newline>            <div class="diet-item">\<newline>                <span class="badge" style="margin-right:10px">Meal 03</span>\<newline>                <strong>'' @ ''Tempeh Buddha Bowl'' @
        ''</strong>\<newline>            </div>\<newline>        '' @
        ''\<newline>        <div class="diet-item" style="border:none; margin-top:10px">\<newline>            <h4>'' @
        [CHR 0xF0, CHR 0x9F, CHR 0x92, CHR 0xA1] @
        '' Weekly Roadmap</h4>\<newline>            <p style="font-size:0.9rem; color:var(--text-muted)">\<newline>                Target change: '' @
        ''0.5kg'' @
        '' / week. \<newline>                Keep hydration above 3L/day.\<newline>            </p>\<newline>        </div>\<newline>    '')\<close>
    using r [of "''gain''"] unfolding e g1 .
  have b: \<open>renderDietPlan ''vegan'' ''maintain'' = Inr (
        ''<p style="margin-bottom:15px; color:var(--text-muted)">Based on your <strong>'' @ ''vegan'' @
        ''</strong> preference and <strong>'' @ ''maintain'' @ ''</strong> goal:</p>'' @
        ''\<newline>            <div class="diet-item">\<newline>                <span class="badge" style="margin-right:10px">Meal 01</span>\<newline>                <strong>'' @ ''Tofu Scramble'' @
        ''</strong>\<newline>            </div>\<newline>        '' @
        ''\<newline>            <div class="diet-item">\<newline>                <span class="badge" style="margin-right:10px">Meal 02</span>\<newline>                <strong>'' @ ''Sweet Potato & Black Bean Tacos'' @
        ''</strong>\<newline>            </div>\<newline>        '' @
        ''\<newline>            <div class="diet-item">\<newline>                <span class="badge" style="margin-right:10px">Meal 03</span>\<newline>                <strong>'' @ ''Tempeh Buddha Bowl'' @
        ''</strong>\<newline>            </div>\<newline>        '' @
        ''\<newline>        <div class="diet-item" style="border:none; margin-top:10px">\<newline>            <h4>'' @
        [CHR 0xF0, CHR 0x9F, CHR 0x92, CHR 0xA1] @
        '' Weekly Roadmap</h4>\<newline>            <p style="font-size:0.9rem; color:var(--text-muted)">\<newline>                Target change: '' @
        ''0kg'' @
        '' / week. \<newline>                Keep hydration above 3L/day.\<newline>            </p>\<newline>        </div>\<newline>    '')\<close>
    using r [of "''maintain''"] unfolding e g2 .
  show ?thesis
    by (rule conjI [OF v conjI [OF a b]])
qed

text \<open>
  C9: no value of gender or goal is rejected. Every gender other than the string male is
  treated as female is: the BMR offset is -161. Every goal other than lose and gain is
  treated as maintain is: the calorie target is the rounded TDEE without adjustment, and
  the four projected weights are the starting weight unchanged. For age 30, 180 cm, 80 kg
  and activity 1.55 the gender other with the goal lose gives the target 2002, and male with
  the goal bulk gives 2759; with 47 kg and activity 1.13 the goal bulk gives 1638, the TDEE
  being the double just below 1638.5.
\<close>

theorem unrecognised_gender_and_goal:
  "(gender d \<noteq> ''male'' \<longrightarrow>
      calculateHealthMetrics d = calculateHealthMetrics (d\<lparr>gender := ''female''\<rparr>)) \<and>
   (gender d \<noteq> ''male'' \<longrightarrow>
      (\<exists>r. calculateHealthMetrics d = Inr r \<and>
           calories r =
             Math_round (spec_target
               (spec_TDEE
                 (js_sub (js_sub (js_add (js_mul (Fin 10) (weight d)) (js_mul (Fin 6.25) (height d)))
                                 (js_mul (Fin 5) (age d)))
                         (Fin 161))
                 (parseFloat (activity d)))
               (goal d)))) \<and>
   (goal d \<noteq> ''lose'' \<and> goal d \<noteq> ''gain'' \<longrightarrow>
      calculateHealthMetrics d = calculateHealthMetrics (d\<lparr>goal := ''maintain''\<rparr>)) \<and>
   (goal d \<noteq> ''lose'' \<and> goal d \<noteq> ''gain'' \<longrightarrow>
      (\<exists>r. calculateHealthMetrics d = Inr r \<and> calories r = Math_round (spec_input_TDEE d))) \<and>
   (gl \<noteq> ''lose'' \<and> gl \<noteq> ''gain'' \<longrightarrow>
      (\<exists>ch. renderCharts b c wt gl = Inr ch \<and>
            dataset (weightChart ch) = replicate 4 (JText (toFixed1 (parseFloat wt))))) \<and>
   (\<exists>r. calculateHealthMetrics d = Inr r) \<and>
   calculateHealthMetrics (form_data 30 ''other'' 180 80 1.55 ''lose'') =
     Inr \<lparr>bmi = Text ''24.7'', calories = Fin 2002, category = ''normal''\<rparr> \<and>
   calculateHealthMetrics (form_data 30 ''male'' 180 80 1.55 ''bulk'') =
     Inr \<lparr>bmi = Text ''24.7'', calories = Fin 2759, category = ''normal''\<rparr> \<and>
   calculateHealthMetrics (form_data 30 ''male'' 180 47 1.13 ''bulk'') =
     Inr \<lparr>bmi = Text ''14.5'', calories = Fin 1638, category = ''underweight''\<rparr>"
proof -
  have c1: "calculateHealthMetrics d = calculateHealthMetrics (d\<lparr>gender := ''female''\<rparr>)"
    if "gender d \<noteq> ''male''"
    using that by (rule metrics_gender)
  have c2: "\<exists>r. calculateHealthMetrics d = Inr r \<and>
           calories r =
             Math_round (spec_target
               (spec_TDEE
                 (js_sub (js_sub (js_add (js_mul (Fin 10) (weight d)) (js_mul (Fin 6.25) (height d)))
                                 (js_mul (Fin 5) (age d)))
                         (Fin 161))
                 (parseFloat (activity d)))
               (goal d))"
    if "gender d \<noteq> ''male''"
    unfolding metrics_spec using that by (simp add: spec_input_TDEE_def spec_BMR_def Let_def)
  have c3: "calculateHealthMetrics d = calculateHealthMetrics (d\<lparr>goal := ''maintain''\<rparr>)"
    if "goal d \<noteq> ''lose'' \<and> goal d \<noteq> ''gain''"
    by (rule metrics_goal [OF conjunct1 [OF that] conjunct2 [OF that]])
  have c4: "\<exists>r. calculateHealthMetrics d = Inr r \<and> calories r = Math_round (spec_input_TDEE d)"
    if "goal d \<noteq> ''lose'' \<and> goal d \<noteq> ''gain''"
    unfolding metrics_spec using that by (simp add: spec_target_def)
  have c5: "\<exists>ch. renderCharts b c wt gl = Inr ch \<and>
            dataset (weightChart ch) = replicate 4 (JText (toFixed1 (parseFloat wt)))"
    if "gl \<noteq> ''lose'' \<and> gl \<noteq> ''gain''"
    by (rule renderCharts_other_goal [OF conjunct1 [OF that] conjunct2 [OF that]])
  from c1 c2 c3 c4 c5 metrics_returns [of d] metrics_other_gender metrics_other_goal
    metrics_180_47_bulk
  show ?thesis by blast
qed

theorem unrecognised_gender_and_goal_witness:
  "''other'' \<noteq> ''male'' \<and> ''bulk'' \<noteq> ''lose'' \<and> ''bulk'' \<noteq> ''gain'' \<and>
   calculateHealthMetrics (form_data 30 ''other'' 180 80 1.55 ''bulk'') =
     calculateHealthMetrics ((form_data 30 ''other'' 180 80 1.55 ''bulk'')\<lparr>gender := ''female''\<rparr>) \<and>
   calculateHealthMetrics (form_data 30 ''other'' 180 80 1.55 ''bulk'') =
     calculateHealthMetrics ((form_data 30 ''other'' 180 80 1.55 ''bulk'')\<lparr>goal := ''maintain''\<rparr>) \<and>
   (\<exists>r. calculateHealthMetrics (form_data 30 ''other'' 180 80 1.55 ''bulk'') = Inr r \<and>
        calories r = Fin 2502) \<and>
   (\<exists>ch. renderCharts (Text ''24.7'') (Fin 2502) (Fin 80) ''bulk'' = Inr ch \<and>
         dataset (weightChart ch) = replicate 4 (JText (Text ''80.0'')))"
proof -
  let ?d = "form_data 30 ''other'' 180 80 1.55 ''bulk''"
  have n1: "''other'' \<noteq> ''male''" and n2: "''bulk'' \<noteq> ''lose'' \<and> ''bulk'' \<noteq> ''gain''"
    by simp_all
  have d1: "gender ?d \<noteq> ''male''"
    by (simp add: form_data_def)
  have d2: "goal ?d \<noteq> ''lose'' \<and> goal ?d \<noteq> ''gain''"
    by (simp add: form_data_def)
  note u = unrecognised_gender_and_goal
  have e1: "calculateHealthMetrics ?d = calculateHealthMetrics (?d\<lparr>gender := ''female''\<rparr>)"
    using u [THEN conjunct1, THEN mp, OF d1] .
  have e2: "calculateHealthMetrics ?d = calculateHealthMetrics (?d\<lparr>goal := ''maintain''\<rparr>)"
    using u [THEN conjunct2, THEN conjunct2, THEN conjunct1, THEN mp, OF d2] .
  have t: "Math_round (spec_input_TDEE ?d) = Fin 2502"
    by (simp add: spec_input_TDEE_def spec_TDEE_def spec_BMR_def form_data_def js_sub_def dbl)
  have e4: "\<exists>r. calculateHealthMetrics ?d = Inr r \<and> calories r = Fin 2502"
    using u [THEN conjunct2, THEN conjunct2, THEN conjunct2, THEN conjunct1, THEN mp, OF d2]
    unfolding t .
  have p: "toFixed1 (parseFloat (Fin 80)) = Text ''80.0''"
    by (simp add: toFixed1_def Let_def digits.simps dbl)
  have e5: "\<exists>ch. renderCharts (Text ''24.7'') (Fin 2502) (Fin 80) ''bulk'' = Inr ch \<and>
         dataset (weightChart ch) = replicate 4 (JText (Text ''80.0''))"
    using u [where gl = "''bulk''" and b = "Text ''24.7''" and c = "Fin 2502" and wt = "Fin 80",
        THEN conjunct2, THEN conjunct2, THEN conjunct2, THEN conjunct2, THEN conjunct1,
        THEN mp, OF n2]
    unfolding p .
  show ?thesis
    by (intro conjI n1 n2 [THEN conjunct1] n2 [THEN conjunct2] e1 e2 e4 e5)
qed

text \<open>
  C10 (as amended): calculateHealthMetrics validates nothing and returns a result for every
  input. For height 0 and a positive weight the BMI is Infinity, classified obese; for
  height 0 and weight 0 it is NaN, also classified obese; for height 0 and a negative weight
  it is -Infinity, classified underweight.
\<close>

theorem calculateHealthMetrics_total:
  "(\<exists>r. calculateHealthMetrics d = Inr r) \<and>
   (height d = Fin 0 \<and> weight d = Fin w \<and> 0 < w \<longrightarrow>
      (\<exists>r. calculateHealthMetrics d = Inr r \<and> bmi r = Text ''Infinity'' \<and> category r = ''obese'')) \<and>
   (height d = Fin 0 \<and> weight d = Fin 0 \<longrightarrow>
      (\<exists>r. calculateHealthMetrics d = Inr r \<and> bmi r = Text ''NaN'' \<and> category r = ''obese'')) \<and>
   (height d = Fin 0 \<and> weight d = Fin w \<and> w < 0 \<longrightarrow>
      (\<exists>r. calculateHealthMetrics d = Inr r \<and> bmi r = Text ''-Infinity'' \<and>
           category r = ''underweight''))"
proof (intro conjI impI)
  show "\<exists>r. calculateHealthMetrics d = Inr r"
    by (rule metrics_returns)
next
  assume "height d = Fin 0 \<and> weight d = Fin w \<and> 0 < w"
  then show "\<exists>r. calculateHealthMetrics d = Inr r \<and> bmi r = Text ''Infinity'' \<and> category r = ''obese''"
    using metrics_bmi [of d] zero_height_bmi [of w]
    by (auto simp add: toFixed1_def getBMICategory_def)
next
  assume "height d = Fin 0 \<and> weight d = Fin 0"
  then show "\<exists>r. calculateHealthMetrics d = Inr r \<and> bmi r = Text ''NaN'' \<and> category r = ''obese''"
    using metrics_bmi [of d] zero_height_bmi [of 0]
    by (auto simp add: toFixed1_def getBMICategory_def)
next
  assume "height d = Fin 0 \<and> weight d = Fin w \<and> w < 0"
  then show "\<exists>r. calculateHealthMetrics d = Inr r \<and> bmi r = Text ''-Infinity'' \<and>
           category r = ''underweight''"
    using metrics_bmi [of d] zero_height_bmi [of w]
    by (auto simp add: toFixed1_def getBMICategory_def)
qed

theorem calculateHealthMetrics_total_witness:
  "(\<exists>r. calculateHealthMetrics (form_data 30 ''male'' 0 80 1.55 ''maintain'') = Inr r \<and>
        bmi r = Text ''Infinity'' \<and> category r = ''obese'') \<and>
   (\<exists>r. calculateHealthMetrics (form_data 30 ''male'' 0 0 1.55 ''maintain'') = Inr r \<and>
        bmi r = Text ''NaN'' \<and> category r = ''obese'') \<and>
   (\<exists>r. calculateHealthMetrics (form_data 30 ''male'' 0 (- 5) 1.55 ''maintain'') = Inr r \<and>
        bmi r = Text ''-Infinity'' \<and> category r = ''underweight'')"
proof -
  have p: "height (form_data 30 ''male'' 0 80 1.55 ''maintain'') = Fin 0 \<and>
           weight (form_data 30 ''male'' 0 80 1.55 ''maintain'') = Fin 80 \<and> (0::real) < 80"
    by (simp add: form_data_def)
  have z: "height (form_data 30 ''male'' 0 0 1.55 ''maintain'') = Fin 0 \<and>
           weight (form_data 30 ''male'' 0 0 1.55 ''maintain'') = Fin 0"
    by (simp add: form_data_def)
  have n: "height (form_data 30 ''male'' 0 (- 5) 1.55 ''maintain'') = Fin 0 \<and>
           weight (form_data 30 ''male'' 0 (- 5) 1.55 ''maintain'') = Fin (- 5) \<and> (- 5::real) < 0"
    by (simp add: form_data_def)
  note t = calculateHealthMetrics_total
  show ?thesis
    using t [THEN conjunct2, THEN conjunct1, THEN mp, OF p]
      t [THEN conjunct2, THEN conjunct2, THEN conjunct1, THEN mp, OF z]
      t [THEN conjunct2, THEN conjunct2, THEN conjunct2, THEN mp, OF n]
    by blast
qed

text \<open>
  C10 as stated fails: with height 0 and weight -5 the returned BMI is -Infinity, not
  Infinity, and the category is underweight, not obese.
\<close>

theorem calculateHealthMetrics_total_counterexample:
  "\<not> isl (calculateHealthMetrics (form_data 30 ''male'' 0 (- 5) 1.55 ''maintain'')) \<and>
   bmi (projr (calculateHealthMetrics (form_data 30 ''male'' 0 (- 5) 1.55 ''maintain''))) \<noteq>
     Text ''Infinity'' \<and>
   category (projr (calculateHealthMetrics (form_data 30 ''male'' 0 (- 5) 1.55 ''maintain''))) \<noteq>
     ''obese'' \<and>
   calculateHealthMetrics (form_data 30 ''male'' 0 (- 5) 1.55 ''maintain'') =
     Inr \<lparr>bmi = Text ''-Infinity'', calories = Fin (- 302), category = ''underweight''\<rparr>"
  using metrics_zero_negative by simp

end
